theory Spec2Isabelle
  imports Complex_Main
begin

section \<open>Values, errors and tables\<close>

text \<open>
  Every exception the Python sources can raise is a value. A function that may raise
  returns \<open>py_error + 'a\<close>, with \<open>Inl\<close> the exception.
\<close>

datatype py_error =
    NameError string
  | TypeError string
  | ValueError string
  | AssertionError string
  | KeyError string
  | NoOptionError string
  | FileNotFoundError string
  | IsADirectoryError string
  | IndexError
  | ZeroDivisionError
  | OverflowError

text \<open>
  A cell of the sample matrix (a numpy array of dtype object): the missing value
  (\<open>None\<close> or \<open>nan\<close>), a bool, an int, a float (idealised as a rational) or any other
  object (a geometry), named by a handle.
\<close>

datatype cell = NaN | CBool bool | CInt int | CFloat rat | CObj nat

type_synonym matrix = "cell list list"

text \<open>
  A numpy array of two dimensions as it is saved, loaded and split: the number of its
  columns, which an array with no row has as well, and its rows. In a rectangular array
  every row has that many cells.
\<close>

record array2d =
  arr_ncols :: nat
  arr_rows :: matrix

definition rectangular :: "array2d \<Rightarrow> bool" where
  "rectangular a \<longleftrightarrow> list_all (\<lambda>row. length row = arr_ncols a) (arr_rows a)"

section \<open>copro/data.py: the adjacency of polygons\<close>

text \<open>
  A boolean pandas DataFrame: the row labels, the column labels and the rows.
\<close>

record 'i frame =
  frame_index :: "'i list"
  frame_columns :: "'i list"
  frame_rows :: "bool list list"

text \<open>
  \<open>neighboring_polys(config, extent_gdf)\<close>. The geo-dataframe is the list of its rows
  (identifier, geometry); \<open>touches g wp\<close> is the geometry library's \<open>g.touches(wp)\<close>.
  Row \<open>i\<close> of the frame is \<open>extent_gdf.geometry.touches(wp)\<close> for the geometry \<open>wp\<close>
  of polygon \<open>i\<close>; rows and columns are then labelled with the identifiers.
\<close>

definition neighboring_polys :: "('g \<Rightarrow> 'g \<Rightarrow> bool) \<Rightarrow> ('i \<times> 'g) list \<Rightarrow> 'i frame" where
  "neighboring_polys touches extent_gdf =
     \<lparr> frame_index = map fst extent_gdf,
       frame_columns = map fst extent_gdf,
       frame_rows = map (\<lambda>p. map (\<lambda>q. touches (snd q) (snd p)) extent_gdf) extent_gdf \<rparr>"

text \<open>
  \<open>find_neighbors(watprovID, neighboring_matrix)\<close>: the rows labelled \<open>watprovID\<close>,
  transposed, and of them the labels whose entry is \<open>True\<close>. With no such row the
  transposed frame has no column \<open>watprovID\<close> (KeyError); with several, the selection
  \<open>neighbours[watprovID]\<close> is a frame and cannot index \<open>loc\<close> (ValueError).
\<close>

definition find_neighbors :: "'i \<Rightarrow> 'i frame \<Rightarrow> py_error + 'i list" where
  "find_neighbors watprovID neighboring_matrix =
     (case filter (\<lambda>lr. fst lr = watprovID)
             (zip (frame_index neighboring_matrix) (frame_rows neighboring_matrix)) of
        [] \<Rightarrow> Inl (KeyError ''watprovID'')
      | [lr] \<Rightarrow>
          Inr (map fst (filter (\<lambda>cv. snd cv = True)
                 (zip (frame_columns neighboring_matrix) (snd lr))))
      | _ \<Rightarrow> Inl (ValueError ''Cannot index with multidimensional key''))"

section \<open>The configuration\<close>

text \<open>
  The parsed configuration file, with the options the sources read:
  section \<open>data\<close> (the variables, as \<open>config.items('data')\<close> lists them),
  \<open>general.input_dir\<close>, \<open>general.verbose\<close>, \<open>settings.y_start\<close>, \<open>settings.y_end\<close>,
  \<open>settings.n_runs\<close>, \<open>pre_calc.XY\<close>, \<open>pre_calc.X\<close>, \<open>machine_learning.scaler\<close> and
  \<open>machine_learning.model\<close>.
\<close>

record config =
  cfg_data :: "(string \<times> string) list"
  cfg_input_dir :: string
  cfg_verbose :: bool
  cfg_y_start :: int
  cfg_y_end :: int
  cfg_n_runs :: int
  cfg_pre_calc_XY :: string
  cfg_pre_calc_X :: string
  cfg_scaler :: string
  cfg_model :: string

text \<open>\<open>os.path.join(a, b)\<close> on POSIX.\<close>

definition path_join :: "string \<Rightarrow> string \<Rightarrow> string" where
  "path_join a b =
     (if b \<noteq> [] \<and> hd b = CHR ''/'' then b
      else if a = [] \<or> last a = CHR ''/'' then a @ b
      else a @ ''/'' @ b)"

section \<open>copro/data.py: the sample store\<close>

text \<open>
  The dictionary of columns \<open>XY\<close>: keys in insertion order, each with its series.
  \<open>dict_set\<close> is the assignment \<open>XY[k] = v\<close>: an existing key keeps its place.
\<close>

type_synonym store = "(string \<times> cell list) list"

fun dict_set :: "store \<Rightarrow> string \<Rightarrow> cell list \<Rightarrow> store" where
  "dict_set [] k v = [(k, v)]"
| "dict_set ((k', v') # d) k v =
     (if k' = k then (k, v) # d else (k', v') # dict_set d k v)"

definition initiate_XY_data :: "config \<Rightarrow> store" where
  "initiate_XY_data cfg =
     (let XY = dict_set [] ''poly_ID'' [];
          XY = dict_set XY ''poly_geometry'' [];
          XY = foldl (\<lambda>d key. dict_set d (fst key) []) XY (cfg_data cfg);
          XY = dict_set XY ''conflict_t_min_1'' [];
          XY = dict_set XY ''conflict_t_min_1_nb'' [];
          XY = dict_set XY ''conflict'' []
      in XY)"

definition initiate_X_data :: "config \<Rightarrow> store" where
  "initiate_X_data cfg =
     (let X = dict_set [] ''poly_ID'' [];
          X = dict_set X ''poly_geometry'' [];
          X = foldl (\<lambda>d key. dict_set d (fst key) []) X (cfg_data cfg);
          X = dict_set X ''conflict_t_min_1'' [];
          X = dict_set X ''conflict_t_min_1_nb'' []
      in X)"

text \<open>
  The dtype of a raster's time axis, \<open>np.dtype(nc_ds.time)\<close>.
\<close>

datatype dtype = Float32 | Float64 | Datetime64_ns | OtherDtype string

text \<open>
  What \<open>fill_XY\<close> is given and what it calls outside this file: the polygons
  (identifier, geometry) and the geometry library's \<open>touches\<close>; the functions of
  \<open>copro.conflict\<close> and \<open>copro.variables\<close>, each returning the list of one value per
  polygon or raising; and \<open>xr.open_dataset\<close>, which gives the dtype of the time axis
  of the file at a path or raises. \<open>conflict.conflict_in_year_bool\<close> and
  \<open>conflict.conflict_in_previous_year\<close> have no field: \<open>fill_XY_ref\<close>, their only
  caller, raises while evaluating their arguments, so that they are not called and the
  matrix of neighbours it builds first is not read.
\<close>

record env =
  env_polygon_gdf :: "(cell \<times> cell) list"
  env_touches :: "cell \<Rightarrow> cell \<Rightarrow> bool"
  env_get_poly_ID :: "py_error + cell list"
  env_get_poly_geometry :: "py_error + cell list"
  env_read_projected_conflict :: "cell frame option \<Rightarrow> py_error + cell list"
  env_open_dataset :: "string \<Rightarrow> py_error + dtype"
  env_nc_with_float_timestamp :: "string \<Rightarrow> int \<Rightarrow> py_error + cell list"
  env_nc_with_continous_datetime_timestamp :: "string \<Rightarrow> int \<Rightarrow> py_error + cell list"

text \<open>
  \<open>data_series = value; data_series = data_series.append(pd.Series(data_list),
  ignore_index=True); XY[key] = data_series\<close>, for a \<open>data_list\<close> that may have raised.
\<close>

definition append_series ::
  "string \<Rightarrow> cell list \<Rightarrow> py_error + cell list \<Rightarrow> py_error + (string \<times> cell list)" where
  "append_series key value data_list =
     (case data_list of Inl e \<Rightarrow> Inl e | Inr l \<Rightarrow> Inr (key, value @ l))"

text \<open>
  The path \<open>os.path.join(root_dir, config.get('general', 'input_dir'),
  config.get('data', key)).rsplit(',')[0]\<close>.
\<close>

definition nc_path :: "config \<Rightarrow> string \<Rightarrow> string \<Rightarrow> py_error + string" where
  "nc_path cfg root_dir key =
     (case map_of (cfg_data cfg) key of
        None \<Rightarrow> Inl (NoOptionError key)
      | Some v \<Rightarrow>
          Inr (takeWhile (\<lambda>c. c \<noteq> CHR '','')
                 (path_join (path_join root_dir (cfg_input_dir cfg)) v)))"

text \<open>
  The body of the loop over \<open>XY.items()\<close> in \<open>fill_XY_ref\<close>, for one column. The
  function has the parameter \<open>conflict_data\<close> and no name \<open>conflict_gdf\<close>, and the module
  has no such global: the three conflict branches raise NameError on their second
  argument. The last branch formats its message with \<open>nc_fo\<close>, a name that is not bound
  either, so that NameError is raised in place of the Warning.
\<close>

definition column_ref ::
  "env \<Rightarrow> config \<Rightarrow> string \<Rightarrow> int \<Rightarrow> string \<times> cell list \<Rightarrow> py_error + (string \<times> cell list)" where
  "column_ref env cfg root_dir sim_year kv =
     (let key = fst kv; value = snd kv in
      if key = ''conflict'' then Inl (NameError ''conflict_gdf'')
      else if key = ''conflict_t_min_1'' then Inl (NameError ''conflict_gdf'')
      else if key = ''conflict_t_min_1_nb'' then Inl (NameError ''conflict_gdf'')
      else if key = ''poly_ID'' then append_series key value (env_get_poly_ID env)
      else if key = ''poly_geometry'' then append_series key value (env_get_poly_geometry env)
      else
        (case nc_path cfg root_dir key of
           Inl e \<Rightarrow> Inl e
         | Inr path \<Rightarrow>
             (case env_open_dataset env path of
                Inl e \<Rightarrow> Inl e
              | Inr t \<Rightarrow>
                  if t = Float32 \<or> t = Float64 then
                    append_series key value (env_nc_with_float_timestamp env key sim_year)
                  else if t = Datetime64_ns then
                    append_series key value
                      (env_nc_with_continous_datetime_timestamp env key sim_year)
                  else Inl (NameError ''nc_fo''))))"

text \<open>The same for \<open>fill_XY_proj\<close>, which reads the conflict columns from \<open>conflict_data\<close>.\<close>

definition column_proj ::
  "env \<Rightarrow> config \<Rightarrow> string \<Rightarrow> cell frame \<Rightarrow> int \<Rightarrow> string \<times> cell list
     \<Rightarrow> py_error + (string \<times> cell list)" where
  "column_proj env cfg root_dir neighboring_matrix proj_year kv =
     (let key = fst kv; value = snd kv in
      if key = ''conflict_t_min_1'' then
        append_series key value (env_read_projected_conflict env None)
      else if key = ''conflict_t_min_1_nb'' then
        append_series key value (env_read_projected_conflict env (Some neighboring_matrix))
      else if key = ''poly_ID'' then append_series key value (env_get_poly_ID env)
      else if key = ''poly_geometry'' then append_series key value (env_get_poly_geometry env)
      else
        (case nc_path cfg root_dir key of
           Inl e \<Rightarrow> Inl e
         | Inr path \<Rightarrow>
             (case env_open_dataset env path of
                Inl e \<Rightarrow> Inl e
              | Inr t \<Rightarrow>
                  if t = Float32 \<or> t = Float64 then
                    append_series key value (env_nc_with_float_timestamp env key proj_year)
                  else if t = Datetime64_ns then
                    append_series key value
                      (env_nc_with_continous_datetime_timestamp env key proj_year)
                  else Inl (NameError ''nc_fo''))))"

text \<open>
  \<open>for key, value in XY.items()\<close>: the columns in order, each replaced by its longer
  series; the first exception ends the loop.
\<close>

fun fill_columns ::
  "(string \<times> cell list \<Rightarrow> py_error + (string \<times> cell list)) \<Rightarrow> store \<Rightarrow> py_error + store" where
  "fill_columns f [] = Inr []"
| "fill_columns f (kv # rest) =
     (case f kv of
        Inl e \<Rightarrow> Inl e
      | Inr kv' \<Rightarrow>
          (case fill_columns f rest of Inl e \<Rightarrow> Inl e | Inr rest' \<Rightarrow> Inr (kv' # rest')))"

text \<open>
  \<open>for (sim_year, i) in zip(model_period, range(len(model_period)))\<close>: the year with
  \<open>i == 0\<close> is skipped.
\<close>

fun fill_years ::
  "(int \<Rightarrow> store \<Rightarrow> py_error + store) \<Rightarrow> (int \<times> nat) list \<Rightarrow> store \<Rightarrow> py_error + store" where
  "fill_years step [] XY = Inr XY"
| "fill_years step (yi # rest) XY =
     (if snd yi = 0 then fill_years step rest XY
      else (case step (fst yi) XY of
              Inl e \<Rightarrow> Inl e
            | Inr XY' \<Rightarrow> fill_years step rest XY'))"

definition fill_XY_ref :: "store \<Rightarrow> env \<Rightarrow> config \<Rightarrow> string \<Rightarrow> int list \<Rightarrow> py_error + store" where
  "fill_XY_ref XY env cfg root_dir model_period =
     (let neighboring_matrix = neighboring_polys (env_touches env) (env_polygon_gdf env) in
      fill_years (\<lambda>sim_year. fill_columns (column_ref env cfg root_dir sim_year))
        (zip model_period [0..<length model_period]) XY)"

definition fill_XY_proj :: "store \<Rightarrow> env \<Rightarrow> config \<Rightarrow> string \<Rightarrow> int \<Rightarrow> py_error + store" where
  "fill_XY_proj XY env cfg root_dir proj_year =
     (let neighboring_matrix = neighboring_polys (env_touches env) (env_polygon_gdf env) in
      fill_columns (column_proj env cfg root_dir neighboring_matrix proj_year) XY)"

text \<open>
  \<open>pd.DataFrame.from_dict(XY).to_numpy()\<close>: one column for each key; the series are
  aligned on their positions, a shorter one is padded with the missing value.
\<close>

definition from_dict_to_numpy :: "store \<Rightarrow> array2d" where
  "from_dict_to_numpy XY =
     \<lparr> arr_ncols = length XY,
       arr_rows =
         map (\<lambda>i. map (\<lambda>kv. if i < length (snd kv) then snd kv ! i else NaN) XY)
           [0..<foldr max (map (\<lambda>kv. length (snd kv)) XY) 0] \<rparr>"

text \<open>
  \<open>fill_XY(XY, config, root_dir, conflict_data, polygon_gdf, out_dir, proj=False,
  proj_year=None)\<close>. The conflict data and the polygons are in \<open>env\<close>. \<open>out_dir\<close> has no
  default: a call that does not give it (\<open>None\<close> here) raises TypeError before the body
  runs. \<open>np.arange(y_start, y_end + 1, 1)\<close> is \<open>[y_start..y_end]\<close>, and the message
  printed first reads its first and last element.
\<close>

definition fill_XY ::
  "store \<Rightarrow> env \<Rightarrow> config \<Rightarrow> string \<Rightarrow> string option \<Rightarrow> bool \<Rightarrow> int option
     \<Rightarrow> py_error + array2d" where
  "fill_XY XY env cfg root_dir out_dir proj proj_year =
     (case out_dir of
        None \<Rightarrow> Inl (TypeError ''fill_XY() missing 1 required positional argument: out_dir'')
      | Some _ \<Rightarrow>
          if \<not> proj then
            (let model_period = [cfg_y_start cfg..cfg_y_end cfg] in
             if model_period = [] then Inl IndexError
             else (case fill_XY_ref XY env cfg root_dir model_period of
                     Inl e \<Rightarrow> Inl e
                   | Inr XY' \<Rightarrow> Inr (from_dict_to_numpy XY')))
          else
            (case proj_year of
               None \<Rightarrow>
                 Inl (ValueError ''ERROR: if proj=True, also a projection year must be specified!'')
             | Some y \<Rightarrow>
                 (case fill_XY_proj XY env cfg root_dir y of
                    Inl e \<Rightarrow> Inl e
                  | Inr XY' \<Rightarrow> Inr (from_dict_to_numpy XY'))))"

text \<open>
  Every collaborator that returns gives one value for each of \<open>p\<close> polygons.
\<close>

definition returns_per_polygon :: "env \<Rightarrow> nat \<Rightarrow> bool" where
  "returns_per_polygon env p \<longleftrightarrow>
     (\<forall>l. env_get_poly_ID env = Inr l \<longrightarrow> length l = p)
   \<and> (\<forall>l. env_get_poly_geometry env = Inr l \<longrightarrow> length l = p)
   \<and> (\<forall>nb l. env_read_projected_conflict env nb = Inr l \<longrightarrow> length l = p)
   \<and> (\<forall>key year l. env_nc_with_float_timestamp env key year = Inr l \<longrightarrow> length l = p)
   \<and> (\<forall>key year l. env_nc_with_continous_datetime_timestamp env key year = Inr l \<longrightarrow> length l = p)"

subsection \<open>split_XY_data\<close>

text \<open>
  \<open>Y.astype(int)\<close> on an array of objects applies \<open>int\<close> to each element, which
  truncates a float towards zero, and stores the result as a 64-bit integer: a value
  outside that range raises OverflowError.
\<close>

definition int64_of :: "int \<Rightarrow> py_error + int" where
  "int64_of i = (if - (2 ^ 63) \<le> i \<and> i < 2 ^ 63 then Inr i else Inl OverflowError)"

fun astype_int :: "cell \<Rightarrow> py_error + int" where
  "astype_int NaN = Inl (ValueError ''cannot convert float NaN to integer'')"
| "astype_int (CBool b) = Inr (if b then 1 else 0)"
| "astype_int (CInt i) = int64_of i"
| "astype_int (CFloat r) = int64_of (if 0 \<le> r then \<lfloor>r\<rfloor> else \<lceil>r\<rceil>)"
| "astype_int (CObj h) = Inl (TypeError ''int() argument must be a number'')"

fun astype_int_list :: "cell list \<Rightarrow> py_error + int list" where
  "astype_int_list [] = Inr []"
| "astype_int_list (c # cs) =
     (case astype_int c of
        Inl e \<Rightarrow> Inl e
      | Inr i \<Rightarrow> (case astype_int_list cs of Inl e \<Rightarrow> Inl e | Inr is \<Rightarrow> Inr (i # is)))"

text \<open>\<open>DataFrame.dropna()\<close>: the rows with no missing value.\<close>

definition dropna :: "matrix \<Rightarrow> matrix" where
  "dropna rows = filter (\<lambda>row. \<not> list_ex (\<lambda>c. c = NaN) row) rows"

text \<open>
  \<open>split_XY_data(XY, config)\<close>. \<open>XY[:, -1]\<close> needs a column, also when the array has
  no row (IndexError); with \<open>verbose\<close> the share of conflicts is computed, a division by
  \<open>len(Y)\<close>.
\<close>

definition split_XY_data :: "array2d \<Rightarrow> config \<Rightarrow> py_error + (matrix \<times> int list)" where
  "split_XY_data XY cfg =
     (let rows = dropna (arr_rows XY) in
      if arr_ncols XY = 0 then Inl IndexError
      else
        (let X = map butlast rows in
         case astype_int_list (map last rows) of
           Inl e \<Rightarrow> Inl e
         | Inr Y \<Rightarrow>
             if cfg_verbose cfg \<and> length Y = 0 then Inl ZeroDivisionError
             else Inr (X, Y)))"

section \<open>copro/machine_learning.py\<close>

datatype scaler = MinMaxScaler | StandardScaler | RobustScaler | QuantileTransformer

datatype classifier = NuSVC | KNeighborsClassifier | RandomForestClassifier

definition define_scaling :: "config \<Rightarrow> py_error + scaler" where
  "define_scaling cfg =
     (if cfg_scaler cfg = ''MinMaxScaler'' then Inr MinMaxScaler
      else if cfg_scaler cfg = ''StandardScaler'' then Inr StandardScaler
      else if cfg_scaler cfg = ''RobustScaler'' then Inr RobustScaler
      else if cfg_scaler cfg = ''QuantileTransformer'' then Inr QuantileTransformer
      else Inl (ValueError
        ''no supported scaling-algorithm selected - choose between MinMaxScaler, StandardScaler, RobustScaler or QuantileTransformer''))"

definition define_model :: "config \<Rightarrow> py_error + classifier" where
  "define_model cfg =
     (if cfg_model cfg = ''NuSVC'' then Inr NuSVC
      else if cfg_model cfg = ''KNeighborsClassifier'' then Inr KNeighborsClassifier
      else if cfg_model cfg = ''RFClassifier'' then Inr RandomForestClassifier
      else Inl (ValueError
        ''no supported ML model selected - choose between NuSVC, KNeighborsClassifier or RFClassifier''))"

text \<open>
  Modelled from the spec: \<open>conflict.split_conflict_geom_data\<close>, of the module
  \<open>copro/conflict.py\<close> that is not among the sources. The spec's \<open>split_columns(matrix)
  -> (ids, geometries, numeric_data)\<close>, where \<open>numeric_data\<close> excludes identifier and
  geometry and the matrix has the columns identifier, geometry, variables:
  \<open>X[:, 0]\<close>, \<open>X[:, 1]\<close> and \<open>X[:, 2:]\<close>. A row with fewer than two cells has no such
  columns.
\<close>

definition split_conflict_geom_data :: "matrix \<Rightarrow> py_error + (cell list \<times> cell list \<times> matrix)" where
  "split_conflict_geom_data X =
     (if list_ex (\<lambda>row. length row < 2) X then Inl IndexError
      else Inr (map (\<lambda>row. row ! 0) X, map (\<lambda>row. row ! 1) X, map (drop 2) X))"

text \<open>
  \<open>np.column_stack((X_ID, X_geom, X_ft))\<close>: the three must have as many rows.
\<close>

definition column_stack :: "cell list \<Rightarrow> cell list \<Rightarrow> matrix \<Rightarrow> py_error + matrix" where
  "column_stack X_ID X_geom X_ft =
     (if length X_ID = length X_geom \<and> length X_geom = length X_ft then
        Inr (map (\<lambda>i. X_ID ! i # X_geom ! i # X_ft ! i) [0..<length X_ID])
      else Inl (ValueError ''all the input array dimensions must match exactly''))"

text \<open>
  \<open>model_selection.train_test_split(X_cs, Y, test_size=...)\<close>. The random draw is
  the parameter: the row indices drawn for the train and for the test partition. Both
  arrays are indexed with the same indices; arrays of different lengths and an empty
  train partition are refused.
\<close>

definition train_test_split ::
  "matrix \<Rightarrow> int list \<Rightarrow> nat list \<times> nat list
     \<Rightarrow> py_error + (matrix \<times> matrix \<times> int list \<times> int list)" where
  "train_test_split X Y draw =
     (if length X \<noteq> length Y then
        Inl (ValueError ''Found input variables with inconsistent numbers of samples'')
      else if fst draw = [] then
        Inl (ValueError ''the resulting train set will be empty'')
      else Inr (map (\<lambda>i. X ! i) (fst draw), map (\<lambda>i. X ! i) (snd draw),
                map (\<lambda>i. Y ! i) (fst draw), map (\<lambda>i. Y ! i) (snd draw)))"

text \<open>
  \<open>split_scale_train_test_split(X, Y, config, scaler)\<close>. Its parameters here:
  \<open>split_columns\<close> for \<open>conflict.split_conflict_geom_data\<close>, \<open>fit_transform\<close> for
  \<open>scaler.fit_transform\<close> and the draw of \<open>train_test_split\<close>. The result is the tuple
  \<open>X_train, X_test, y_train, y_test, X_train_geom, X_test_geom, X_train_ID, X_test_ID\<close>.
  The messages of the two assertions end with the two lengths, left out here.
\<close>

definition split_scale_train_test_split ::
  "(matrix \<Rightarrow> py_error + (cell list \<times> cell list \<times> matrix)) \<Rightarrow> (matrix \<Rightarrow> py_error + matrix)
     \<Rightarrow> nat list \<times> nat list \<Rightarrow> matrix \<Rightarrow> int list
     \<Rightarrow> py_error + (matrix \<times> matrix \<times> int list \<times> int list
                      \<times> cell list \<times> cell list \<times> cell list \<times> cell list)" where
  "split_scale_train_test_split split_columns fit_transform draw X Y =
     (case split_columns X of
        Inl e \<Rightarrow> Inl e
      | Inr (X_ID, X_geom, X_data) \<Rightarrow>
     (case fit_transform X_data of
        Inl e \<Rightarrow> Inl e
      | Inr X_ft \<Rightarrow>
     (case column_stack X_ID X_geom X_ft of
        Inl e \<Rightarrow> Inl e
      | Inr X_cs \<Rightarrow>
     (case train_test_split X_cs Y draw of
        Inl e \<Rightarrow> Inl e
      | Inr (X_train0, X_test0, y_train, y_test) \<Rightarrow>
     (case split_columns X_train0 of
        Inl e \<Rightarrow> Inl e
      | Inr (X_train_ID, X_train_geom, X_train) \<Rightarrow>
     (case split_columns X_test0 of
        Inl e \<Rightarrow> Inl e
      | Inr (X_test_ID, X_test_geom, X_test) \<Rightarrow>
          if \<not> length X_test_ID = length X_test then
            Inl (AssertionError ''lenght X_test_ID does not match lenght X_test'')
          else if \<not> length X_test_geom = length X_test then
            Inl (AssertionError ''lenght X_test_geom does not match lenght X_test'')
          else Inr (X_train, X_test, y_train, y_test,
                    X_train_geom, X_test_geom, X_train_ID, X_test_ID)))))))"

section \<open>copro/pipeline.py\<close>

text \<open>
  The file system, by path: nothing, a directory, or a file that holds an array.
  \<open>np.load(path, allow_pickle=True)\<close> reads such a file. \<open>np.save(path, array)\<close> writes
  one into a directory that exists, adding \<open>.npy\<close> to a path that does not end with it;
  what it writes is what \<open>np.load\<close> gives back, cell by cell, as numpy documents it.
\<close>

datatype fs_entry = NoEntry | Directory | ArrayFile array2d

type_synonym files = "string \<Rightarrow> fs_entry"

datatype io_event = Load string | Save string array2d

definition np_load :: "files \<Rightarrow> string \<Rightarrow> py_error + array2d" where
  "np_load fs path =
     (case fs path of
        NoEntry \<Rightarrow> Inl (FileNotFoundError path)
      | Directory \<Rightarrow> Inl (IsADirectoryError path)
      | ArrayFile a \<Rightarrow> Inr a)"

definition npy_path :: "string \<Rightarrow> string" where
  "npy_path path =
     (if length ''.npy'' \<le> length path \<and> drop (length path - length ''.npy'') path = ''.npy''
      then path else path @ ''.npy'')"

definition np_save :: "files \<Rightarrow> string \<Rightarrow> array2d \<Rightarrow> files" where
  "np_save fs path a = fs (npy_path path := ArrayFile a)"

text \<open>The files after the calls of a trace.\<close>

fun files_after :: "files \<Rightarrow> io_event list \<Rightarrow> files" where
  "files_after fs [] = fs"
| "files_after fs (Load path # evs) = files_after fs evs"
| "files_after fs (Save path a # evs) = files_after (np_save fs path a) evs"

text \<open>
  \<open>create_XY(config, out_dir, root_dir, polygon_gdf, conflict_gdf)\<close>: the files read and
  written, and the result. The test \<open>config.get('pre_calc', 'XY') is ''\<close> holds for the
  empty entry. With it, \<open>data.fill_XY(XY, config, root_dir, conflict_gdf, polygon_gdf)\<close>
  is called with five arguments, none of them \<open>out_dir\<close>; on its return the array is
  saved with \<open>np.save(os.path.join(out_dir, 'XY'), XY)\<close>.
\<close>

definition create_XY ::
  "env \<Rightarrow> config \<Rightarrow> string \<Rightarrow> string \<Rightarrow> files
     \<Rightarrow> io_event list \<times> (py_error + (matrix \<times> int list))" where
  "create_XY env cfg out_dir root_dir fs =
     (if cfg_pre_calc_XY cfg = [] then
        (let XY = initiate_XY_data cfg in
         case fill_XY XY env cfg root_dir None False None of
           Inl e \<Rightarrow> ([], Inl e)
         | Inr XY \<Rightarrow> ([Save (path_join out_dir ''XY'') XY], split_XY_data XY cfg))
      else
        (case np_load fs (path_join root_dir (cfg_pre_calc_XY cfg)) of
           Inl e \<Rightarrow> ([], Inl e)
         | Inr XY \<Rightarrow> ([Load (path_join root_dir (cfg_pre_calc_XY cfg))], split_XY_data XY cfg)))"

text \<open>
  \<open>create_X(config, out_dir, root_dir, polygon_gdf, conflict_gdf=None)\<close>: the test
  reads the entry \<open>XY\<close> of \<open>pre_calc\<close>, the load the entry \<open>X\<close>.
\<close>

definition create_X ::
  "env \<Rightarrow> config \<Rightarrow> string \<Rightarrow> string \<Rightarrow> files \<Rightarrow> io_event list \<times> (py_error + array2d)" where
  "create_X env cfg out_dir root_dir fs =
     (if cfg_pre_calc_XY cfg = [] then
        (let X = initiate_X_data cfg in
         case fill_XY X env cfg root_dir None False None of
           Inl e \<Rightarrow> ([], Inl e)
         | Inr X \<Rightarrow> ([Save (path_join out_dir ''X'') X], Inr X))
      else
        (case np_load fs (path_join root_dir (cfg_pre_calc_X cfg)) of
           Inl e \<Rightarrow> ([], Inl e)
         | Inr X \<Rightarrow> ([Load (path_join root_dir (cfg_pre_calc_X cfg))], Inr X)))"

definition prepare_ML :: "config \<Rightarrow> py_error + (scaler \<times> classifier)" where
  "prepare_ML cfg =
     (case define_scaling cfg of
        Inl e \<Rightarrow> Inl e
      | Inr scaler \<Rightarrow>
          (case define_model cfg of Inl e \<Rightarrow> Inl e | Inr clf \<Rightarrow> Inr (scaler, clf)))"

section \<open>scripts/runner.py\<close>

text \<open>
  \<open>main(cfg)\<close>: the files its calls read and write, and the exception that ends it.
  The script imports the package under its earlier name \<open>conflict_model\<close>; the module
  \<open>pipeline\<close> of the package is \<open>copro/pipeline.py\<close>.
  \<^item> Lines 31 to 38 call \<open>utils.initiate_setup\<close>, \<open>selection.select\<close> and
    \<open>plots.plot_active_polys\<close>, modules that are not among the sources: \<open>col_select\<close>
    stands for the three calls on the parsed configuration, and gives the files they
    touch and the exception one of them raises, if any.
  \<^item> Line 42 calls \<open>pipeline.create_XY(config, conflict_gdf, extent_active_polys_gdf)\<close>
    with three arguments. \<open>create_XY\<close> has five parameters and none has a default:
    the call raises TypeError before the body of \<open>create_XY\<close> runs.
  The lines after line 42, with the call of \<open>prepare_ML\<close> in line 45 and the loop over
  the runs from line 58 on, are not reached.
\<close>

record collaborators =
  col_select :: "config \<Rightarrow> io_event list \<times> py_error option"

definition main :: "collaborators \<Rightarrow> config \<Rightarrow> io_event list \<times> py_error" where
  "main col cfg =
     (case col_select col cfg of
        (ev, Some e) \<Rightarrow> (ev, e)
      | (ev, None) \<Rightarrow>
          (ev, TypeError
                 ''create_XY() missing 2 required positional arguments: polygon_gdf and conflict_gdf''))"

section \<open>conflict_model/evaluation.py\<close>

text \<open>
  The rows of \<open>df\<close>, with the two columns \<open>get_average_hit\<close> reads, and the rows of its
  result. \<open>global_df\<close> is the list of its rows (ID, geometry).
\<close>

record 'k y_row =
  ID :: 'k
  overall_hit :: int

record ('k, 'g) hit_row =
  hit_ID :: 'k
  ID_count :: nat
  total_hits :: int
  average_hit :: rat
  geometry :: "'g option"

text \<open>
  \<open>df.ID.value_counts()\<close>: each value with the number of its rows, the most frequent
  first (values in the order of their first row, sorted stably).
\<close>

definition value_counts :: "'k list \<Rightarrow> ('k \<times> nat) list" where
  "value_counts ids =
     sort_key (\<lambda>kc. - int (snd kc))
       (map (\<lambda>k. (k, count_list ids k)) (rev (remdups (rev ids))))"

text \<open>\<open>df.overall_hit.groupby(df.ID).sum()\<close>: the groups in the order of their keys.\<close>

definition groupby_sum :: "('k::linorder) y_row list \<Rightarrow> ('k \<times> int) list" where
  "groupby_sum df =
     map (\<lambda>k. (k, sum_list (map overall_hit (filter (\<lambda>r. ID r = k) df))))
       (sort (remdups (map ID df)))"

text \<open>
  \<open>pd.merge(ID_count, hit_count, on='ID')\<close>, an inner join in the order of the left
  keys, and \<open>pd.merge(df_temp, global_df, on='ID', how='left')\<close>, which keeps a left row
  with no match, its geometry missing.
\<close>

definition merge_inner :: "('k \<times> 'a) list \<Rightarrow> ('k \<times> 'b) list \<Rightarrow> ('k \<times> 'a \<times> 'b) list" where
  "merge_inner left right =
     concat (map (\<lambda>l. map (\<lambda>r. (fst l, snd l, snd r)) (filter (\<lambda>r. fst r = fst l) right)) left)"

definition merge_left :: "('k \<times> 'a) list \<Rightarrow> ('k \<times> 'b) list \<Rightarrow> ('k \<times> 'a \<times> 'b option) list" where
  "merge_left left right =
     concat (map (\<lambda>l. case filter (\<lambda>r. fst r = fst l) right of
                         [] \<Rightarrow> [(fst l, snd l, None)]
                       | ms \<Rightarrow> map (\<lambda>r. (fst l, snd l, Some (snd r))) ms) left)"

text \<open>
  \<open>get_average_hit(df, global_df)\<close>, which returns the frame twice: as a data frame and
  as a geo-dataframe.
\<close>

definition get_average_hit ::
  "('k::linorder) y_row list \<Rightarrow> ('k \<times> 'g) list \<Rightarrow> ('k, 'g) hit_row list \<times> ('k, 'g) hit_row list" where
  "get_average_hit df global_df =
     (let ID_count_frame = value_counts (map ID df);
          hit_count = groupby_sum df;
          df_temp = merge_inner ID_count_frame hit_count;
          df_temp = map (\<lambda>t. (fst t, (fst (snd t), snd (snd t),
                                 of_int (snd (snd t)) / of_nat (fst (snd t))))) df_temp;
          df_hit = map (\<lambda>t. \<lparr> hit_ID = fst t, ID_count = fst (fst (snd t)),
                               total_hits = fst (snd (fst (snd t))),
                               average_hit = snd (snd (fst (snd t))),
                               geometry = snd (snd t) \<rparr>)
                     (merge_left df_temp global_df)
      in (df_hit, df_hit))"

section \<open>Fixtures\<close>

text \<open>
  Three polygons in a row: the first touches the second, the second the third.
\<close>

definition gdf3 :: "(nat \<times> nat) list" where
  "gdf3 = [(1, 10), (2, 20), (3, 30)]"

definition touches3 :: "nat \<Rightarrow> nat \<Rightarrow> bool" where
  "touches3 g h = List.member [(10, 20), (20, 10), (20, 30), (30, 20)] (g, h)"

text \<open>
  A configuration of the reference run over 2000 to 2002 with one variable, and a
  sample array of five rows and six columns, the second row with a missing value, the
  labels of the others a boolean, an integer and two floats.
\<close>

definition cfg1 :: config where
  "cfg1 = \<lparr> cfg_data = [(''rainfall'', ''rain.nc'')], cfg_input_dir = ''input'',
            cfg_verbose = True, cfg_y_start = 2000, cfg_y_end = 2002, cfg_n_runs = 2,
            cfg_pre_calc_XY = [], cfg_pre_calc_X = [],
            cfg_scaler = ''MinMaxScaler'', cfg_model = ''NuSVC'' \<rparr>"

definition XY1 :: array2d where
  "XY1 = \<lparr> arr_ncols = 6,
            arr_rows =
              [[CInt 1, CObj 10, CFloat (1 / 2), CBool False, CFloat 0, CBool True],
               [CInt 2, CObj 20, NaN, CBool False, CFloat 0, CBool True],
               [CInt 3, CObj 30, CFloat 3, CBool True, CFloat (1 / 2), CInt 0],
               [CInt 4, CObj 40, CFloat 2, CBool True, CFloat 1, CFloat (- 3 / 2)],
               [CInt 5, CObj 50, CFloat 1, CBool False, CFloat 0, CFloat (5 / 2)]] \<rparr>"

text \<open>
  Two runs: polygon 1 is in the test rows of both, hit in the first and missed in the
  second; polygon 2 is in the test rows of the first; polygon 3 in none.
\<close>

definition runs1 :: "nat y_row list list" where
  "runs1 = [[\<lparr>ID = 1, overall_hit = 1\<rparr>, \<lparr>ID = 2, overall_hit = 1\<rparr>],
            [\<lparr>ID = 1, overall_hit = 0\<rparr>]]"

text \<open>
  A sample matrix of three rows with two variables, and a scaler that halves.
\<close>

definition X3 :: matrix where
  "X3 = [[CInt 1, CObj 10, CFloat 4, CBool False],
         [CInt 2, CObj 20, CFloat 8, CBool True],
         [CInt 3, CObj 30, CFloat 6, CBool False]]"

definition halve :: "matrix \<Rightarrow> py_error + matrix" where
  "halve m = Inr (map (map (\<lambda>c. case c of CFloat r \<Rightarrow> CFloat (r / 2) | CBool b \<Rightarrow> CFloat (if b then 1 else 0) | _ \<Rightarrow> c)) m)"

text \<open>
  Collaborators for three polygons and the raster \<open>rain.nc\<close> with a float time axis;
  a file system with the array \<open>XY1\<close> saved as \<open>XY.npy\<close>; and a configuration that reuses
  it and names a scaler that is not supported.
\<close>

definition env1 :: env where
  "env1 = \<lparr> env_polygon_gdf = [(CInt 1, CObj 10), (CInt 2, CObj 20), (CInt 3, CObj 30)],
            env_touches = (\<lambda>g h. List.member
               [(CObj 10, CObj 20), (CObj 20, CObj 10), (CObj 20, CObj 30), (CObj 30, CObj 20)] (g, h)),
            env_get_poly_ID = Inr [CInt 1, CInt 2, CInt 3],
            env_get_poly_geometry = Inr [CObj 10, CObj 20, CObj 30],
            env_read_projected_conflict = (\<lambda>nb. Inr [CBool False, CBool False, CBool False]),
            env_open_dataset = (\<lambda>path. if path = ''root/input/rain.nc'' then Inr Float64
                                        else Inl (FileNotFoundError path)),
            env_nc_with_float_timestamp = (\<lambda>key year. Inr [CFloat 1, CFloat 2, CFloat 3]),
            env_nc_with_continous_datetime_timestamp =
              (\<lambda>key year. Inr [CFloat 1, CFloat 2, CFloat 3]) \<rparr>"

definition files1 :: files where
  "files1 = (\<lambda>path. if path = ''root/XY.npy'' then ArrayFile XY1 else NoEntry)"

definition cfg2 :: config where
  "cfg2 = cfg1 \<lparr> cfg_pre_calc_XY := ''XY.npy'', cfg_scaler := ''MaxAbsScaler'' \<rparr>"

text \<open>
  The calls of lines 31 to 38 of the main script returning, with no file touched.
\<close>

definition col1 :: collaborators where
  "col1 = \<lparr> col_select = (\<lambda>cfg. ([], None)) \<rparr>"

text \<open>The same collaborators, the rasters with a time axis of 64-bit integers.\<close>

definition env2 :: env where
  "env2 = env1 \<lparr> env_open_dataset := (\<lambda>path. Inr (OtherDtype ''int64'')) \<rparr>"

section \<open>Adjacency is symmetric\<close>

lemma filter_key_distinct:
  "distinct (map fst xs) \<Longrightarrow> (k, v) \<in> set xs \<Longrightarrow> filter (\<lambda>lr. fst lr = k) xs = [(k, v)]"
proof (induction xs)
  case Nil
  then show ?case by simp
next
  case (Cons x xs)
  show ?case
  proof (cases "fst x = k")
    case True
    with Cons.prems have notin: "k \<notin> fst ` set xs" by simp
    then have none: "filter (\<lambda>lr. fst lr = k) xs = []"
      by (auto simp: filter_empty_conv)
    from Cons.prems(2) notin have "x = (k, v)"
      by (force simp: image_iff)
    with none show ?thesis by simp
  next
    case False
    with Cons.prems have "distinct (map fst xs)" and "(k, v) \<in> set xs" by auto
    with Cons.IH False show ?thesis by simp
  qed
qed

lemma zip_map_fst_map:
  "zip (map fst xs) (map f xs) = map (\<lambda>x. (fst x, f x)) xs"
  by (induction xs) simp_all

lemma find_neighbors_neighboring_polys:
  assumes "distinct (map fst extent_gdf)" and "(b, wp) \<in> set extent_gdf"
  shows "find_neighbors b (neighboring_polys touches extent_gdf) =
           Inr (map fst (filter (\<lambda>q. touches (snd q) wp) extent_gdf))"
proof -
  let ?row = "\<lambda>p. map (\<lambda>q. touches (snd q) (snd p)) extent_gdf"
  let ?labelled = "map (\<lambda>x. (fst x, ?row x)) extent_gdf"
  have d: "distinct (map fst ?labelled)"
    using assms(1) by (simp add: comp_def)
  have m: "(b, ?row (b, wp)) \<in> set ?labelled"
    using assms(2) by (auto simp: image_iff intro!: bexI [of _ "(b, wp)"])
  have sel: "filter (\<lambda>lr. fst lr = b) ?labelled = [(b, ?row (b, wp))]"
    by (rule filter_key_distinct [OF d m])
  have picked: "map fst (filter (\<lambda>cv. snd cv = True)
                  (map (\<lambda>x. (fst x, touches (snd x) wp)) extent_gdf)) =
                map fst (filter (\<lambda>q. touches (snd q) wp) extent_gdf)"
    by (induction extent_gdf) simp_all
  have "find_neighbors b (neighboring_polys touches extent_gdf) =
          (case filter (\<lambda>lr. fst lr = b) ?labelled of
             [] \<Rightarrow> Inl (KeyError ''watprovID'')
           | [lr] \<Rightarrow> Inr (map fst (filter (\<lambda>cv. snd cv = True)
                         (zip (map fst extent_gdf) (snd lr))))
           | _ \<Rightarrow> Inl (ValueError ''Cannot index with multidimensional key''))"
    by (simp only: find_neighbors_def neighboring_polys_def frame.simps zip_map_fst_map)
  also have "\<dots> = Inr (map fst (filter (\<lambda>cv. snd cv = True)
                         (zip (map fst extent_gdf) (?row (b, wp)))))"
    by (simp only: sel list.case snd_conv)
  also have "\<dots> = Inr (map fst (filter (\<lambda>q. touches (snd q) wp) extent_gdf))"
    by (simp only: snd_conv zip_map_fst_map picked)
  finally show ?thesis .
qed

text \<open>
  C5. For two polygons A and B of a collection with distinct identifiers, and a touch
  predicate that is symmetric, A is among the neighbours found for B exactly when B is
  among the neighbours found for A. The builder stores both directions: the entry for
  (B, A) is \<open>touches g\<^sub>A g\<^sub>B\<close> and the entry for (A, B) is \<open>touches g\<^sub>B g\<^sub>A\<close>.
\<close>

theorem find_neighbors_symmetric:
  assumes "distinct (map fst extent_gdf)"
    and "\<And>g h. touches g h = touches h g"
    and "(a, ga) \<in> set extent_gdf" and "(b, gb) \<in> set extent_gdf"
  shows "\<exists>na nb. find_neighbors a (neighboring_polys touches extent_gdf) = Inr na
           \<and> find_neighbors b (neighboring_polys touches extent_gdf) = Inr nb
           \<and> (a \<in> set nb \<longleftrightarrow> b \<in> set na)"
proof -
  let ?na = "map fst (filter (\<lambda>q. touches (snd q) ga) extent_gdf)"
  let ?nb = "map fst (filter (\<lambda>q. touches (snd q) gb) extent_gdf)"
  have only_a: "g = ga" if "(a, g) \<in> set extent_gdf" for g
    using assms(1) that assms(3) by (rule eq_key_imp_eq_value)
  have only_b: "g = gb" if "(b, g) \<in> set extent_gdf" for g
    using assms(1) that assms(4) by (rule eq_key_imp_eq_value)
  have "a \<in> set ?nb \<longleftrightarrow> touches ga gb"
  proof
    assume "a \<in> set ?nb"
    then obtain g where "(a, g) \<in> set extent_gdf" and "touches g gb" by force
    with only_a show "touches ga gb" by blast
  next
    assume "touches ga gb"
    with assms(3) show "a \<in> set ?nb" by force
  qed
  moreover have "b \<in> set ?na \<longleftrightarrow> touches gb ga"
  proof
    assume "b \<in> set ?na"
    then obtain g where "(b, g) \<in> set extent_gdf" and "touches g ga" by force
    with only_b show "touches gb ga" by blast
  next
    assume "touches gb ga"
    with assms(4) show "b \<in> set ?na" by force
  qed
  ultimately have "a \<in> set ?nb \<longleftrightarrow> b \<in> set ?na"
    using assms(2) by simp
  then show ?thesis
    using find_neighbors_neighboring_polys [OF assms(1) assms(3), of touches]
      find_neighbors_neighboring_polys [OF assms(1) assms(4), of touches]
    by blast
qed

lemma find_neighbors_scenario:
  "find_neighbors 2 (neighboring_polys touches3 gdf3) = Inr [1, 3]"
  "find_neighbors 1 (neighboring_polys touches3 gdf3) = Inr [2]"
  "find_neighbors 3 (neighboring_polys touches3 gdf3) = Inr [2]"
  by (simp_all add: find_neighbors_def neighboring_polys_def touches3_def gdf3_def)

theorem find_neighbors_symmetric_witness:
  "distinct (map fst gdf3) \<and> (\<forall>g h. touches3 g h = touches3 h g)
     \<and> (1, 10) \<in> set gdf3 \<and> (2, 20) \<in> set gdf3
     \<and> (\<exists>na nb. find_neighbors 1 (neighboring_polys touches3 gdf3) = Inr na
           \<and> find_neighbors 2 (neighboring_polys touches3 gdf3) = Inr nb
           \<and> (1 \<in> set nb \<longleftrightarrow> 2 \<in> set na))"
proof -
  have d: "distinct (map fst gdf3)" by (simp add: gdf3_def)
  have sym: "touches3 g h = touches3 h g" for g h
    by (auto simp: touches3_def)
  have a: "(1, 10) \<in> set gdf3" and b: "(2, 20) \<in> set gdf3"
    by (simp_all add: gdf3_def)
  have res: "\<exists>na nb. find_neighbors 1 (neighboring_polys touches3 gdf3) = Inr na
           \<and> find_neighbors 2 (neighboring_polys touches3 gdf3) = Inr nb
           \<and> (1 \<in> set nb \<longleftrightarrow> 2 \<in> set na)"
    by (rule find_neighbors_symmetric [OF d sym a b])
  show ?thesis
    by (intro conjI allI d sym a b res)
qed

section \<open>Missing values and the split into X and Y\<close>

lemma dropna_complete: "dropna XY = filter (\<lambda>row. NaN \<notin> set row) XY"
  by (simp add: dropna_def list_ex_iff)

lemma astype_int_list_map:
  "astype_int_list cs = Inr is \<Longrightarrow> map Inr is = map astype_int cs"
proof (induction cs arbitrary: "is")
  case Nil
  then show ?case by simp
next
  case (Cons c cs)
  then show ?case by (auto split: sum.splits)
qed

lemma astype_int_list_total:
  "\<forall>c\<in>set cs. \<exists>i. astype_int c = Inr i \<Longrightarrow> \<exists>is. astype_int_list cs = Inr is"
proof (induction cs)
  case Nil
  then show ?case by simp
next
  case (Cons c cs)
  then obtain i "is" where "astype_int c = Inr i" and "astype_int_list cs = Inr is"
    by auto
  then show ?case by simp
qed

lemma astype_int_list_nth:
  assumes "astype_int_list cs = Inr is"
  shows "length is = length cs \<and> (\<forall>i < length cs. astype_int (cs ! i) = Inr (is ! i))"
proof -
  from assms have m: "map Inr is = map astype_int cs"
    by (rule astype_int_list_map)
  then have l: "length is = length cs"
    by (metis length_map)
  have "astype_int (cs ! i) = Inr (is ! i)" if "i < length cs" for i
  proof -
    from that have "astype_int (cs ! i) = map astype_int cs ! i"
      by simp
    also have "\<dots> = map Inr is ! i"
      by (simp only: m)
    also from that l have "\<dots> = Inr (is ! i)"
      by simp
    finally show ?thesis .
  qed
  with l show ?thesis by blast
qed




text \<open>
  The split returns when the array has a column, the label of every row without a
  missing value can be cast and, with \<open>verbose\<close> set, there is such a row.
\<close>

lemma split_XY_data_returns:
  assumes "0 < arr_ncols XY"
    and "\<forall>row\<in>set (arr_rows XY). NaN \<notin> set row \<longrightarrow> (\<exists>n. astype_int (last row) = Inr n)"
    and "cfg_verbose cfg \<longrightarrow> (\<exists>row\<in>set (arr_rows XY). NaN \<notin> set row)"
  shows "\<exists>X Y. split_XY_data XY cfg = Inr (X, Y)"
proof -
  let ?C = "filter (\<lambda>row. NaN \<notin> set row) (arr_rows XY)"
  from assms(2) have "\<forall>c\<in>set (map last ?C). \<exists>i. astype_int c = Inr i"
    by auto
  then obtain Y where Y: "astype_int_list (map last ?C) = Inr Y"
    using astype_int_list_total by blast
  from astype_int_list_nth [OF Y] have "length Y = length ?C"
    by simp
  moreover from assms(3) have "cfg_verbose cfg \<longrightarrow> ?C \<noteq> []"
    by (auto simp: filter_empty_conv)
  ultimately have "\<not> (cfg_verbose cfg \<and> length Y = 0)"
    by auto
  with assms(1) Y show ?thesis
    by (simp add: split_XY_data_def Let_def dropna_complete)
qed

lemma truncated_halves: "\<lceil>- (3 / 2) :: rat\<rceil> = - 1" "\<lfloor>5 / 2 :: rat\<rfloor> = 2"
  by (simp_all add: floor_unique ceiling_unique)


text \<open>
  An array with no column, and a label outside the 64-bit integers: the split raises.
\<close>

lemma split_XY_data_no_column:
  "split_XY_data \<lparr> arr_ncols = 0, arr_rows = [] \<rparr> cfg = Inl IndexError"
  by (simp add: split_XY_data_def)

lemma split_XY_data_overflow:
  "split_XY_data \<lparr> arr_ncols = 2, arr_rows = [[CFloat 1, CInt (2 ^ 63)]] \<rparr> cfg = Inl OverflowError"
  by (simp add: split_XY_data_def dropna_def int64_of_def)


section \<open>The hits of a polygon\<close>

lemma count_list_map_ID:
  "count_list (map ID df) k = length (filter (\<lambda>x. ID x = k) df)"
  by (induction df) simp_all

lemma set_value_counts:
  "set (value_counts ids) = (\<lambda>k. (k, count_list ids k)) ` set ids"
  by (simp add: value_counts_def)

lemma set_groupby_sum:
  "set (groupby_sum df) =
     (\<lambda>k. (k, sum_list (map overall_hit (filter (\<lambda>r. ID r = k) df)))) ` ID ` set df"
  by (simp add: groupby_sum_def)

lemma set_merge_inner:
  "set (merge_inner left right) =
     {(k, a, b). (k, a) \<in> set left \<and> (k, b) \<in> set right}"
  by (force simp: merge_inner_def)

lemma merge_left_from_left:
  assumes "t \<in> set (merge_left left right)"
  shows "(fst t, fst (snd t)) \<in> set left"
proof -
  from assms obtain l where l: "l \<in> set left"
    and t: "t \<in> set (case filter (\<lambda>r. fst r = fst l) right of
                       [] \<Rightarrow> [(fst l, snd l, None)]
                     | ms \<Rightarrow> map (\<lambda>r. (fst l, snd l, Some (snd r))) ms)"
    by (auto simp: merge_left_def)
  from t have "fst t = fst l \<and> fst (snd t) = snd l"
    by (cases "filter (\<lambda>r. fst r = fst l) right") auto
  with l show ?thesis by simp
qed

lemma merge_left_keeps_left:
  assumes "l \<in> set left"
  shows "\<exists>g. (fst l, snd l, g) \<in> set (merge_left left right)"
proof (cases "filter (\<lambda>r. fst r = fst l) right")
  case Nil
  with assms have "(fst l, snd l, None) \<in> set (merge_left left right)"
    by (force simp: merge_left_def)
  then show ?thesis ..
next
  case (Cons m ms)
  with assms have "(fst l, snd l, Some (snd m)) \<in> set (merge_left left right)"
    by (force simp: merge_left_def)
  then show ?thesis ..
qed


lemma df_temp_rows:
  "set (merge_inner (value_counts (map ID df)) (groupby_sum df)) =
     (\<lambda>k. (k, length (filter (\<lambda>x. ID x = k) df),
              sum_list (map overall_hit (filter (\<lambda>x. ID x = k) df)))) ` ID ` set df"
proof (rule set_eqI)
  fix t :: "'a \<times> nat \<times> int"
  obtain k a b where t: "t = (k, a, b)" by (cases t)
  have "t \<in> set (merge_inner (value_counts (map ID df)) (groupby_sum df)) \<longleftrightarrow>
          (k, a) \<in> set (value_counts (map ID df)) \<and> (k, b) \<in> set (groupby_sum df)"
    by (simp add: set_merge_inner t)
  also have "\<dots> \<longleftrightarrow> k \<in> ID ` set df \<and> a = length (filter (\<lambda>x. ID x = k) df)
                     \<and> b = sum_list (map overall_hit (filter (\<lambda>x. ID x = k) df))"
    unfolding set_value_counts set_groupby_sum count_list_map_ID [symmetric]
    by auto
  also have "\<dots> \<longleftrightarrow> t \<in> (\<lambda>k. (k, length (filter (\<lambda>x. ID x = k) df),
              sum_list (map overall_hit (filter (\<lambda>x. ID x = k) df)))) ` ID ` set df"
    unfolding t by auto
  finally show "t \<in> set (merge_inner (value_counts (map ID df)) (groupby_sum df)) \<longleftrightarrow>
     t \<in> (\<lambda>k. (k, length (filter (\<lambda>x. ID x = k) df),
              sum_list (map overall_hit (filter (\<lambda>x. ID x = k) df)))) ` ID ` set df" .
qed

lemma get_average_hit_row:
  assumes "r \<in> set (fst (get_average_hit df global_df))"
  shows "hit_ID r \<in> ID ` set df
     \<and> ID_count r = length (filter (\<lambda>x. ID x = hit_ID r) df)
     \<and> total_hits r = sum_list (map overall_hit (filter (\<lambda>x. ID x = hit_ID r) df))
     \<and> average_hit r = of_int (total_hits r) / of_nat (ID_count r)"
proof -
  let ?temp = "merge_inner (value_counts (map ID df)) (groupby_sum df)"
  let ?avg = "\<lambda>t. (fst t, (fst (snd t), snd (snd t), (of_int (snd (snd t)) :: rat) / of_nat (fst (snd t))))"
  from assms obtain t where t: "t \<in> set (merge_left (map ?avg ?temp) global_df)"
    and r: "r = \<lparr> hit_ID = fst t, ID_count = fst (fst (snd t)),
                  total_hits = fst (snd (fst (snd t))),
                  average_hit = snd (snd (fst (snd t))), geometry = snd (snd t) \<rparr>"
    by (auto simp: get_average_hit_def Let_def)
  from t have "(fst t, fst (snd t)) \<in> set (map ?avg ?temp)"
    by (rule merge_left_from_left)
  then obtain u where u: "u \<in> set ?temp" and tu: "(fst t, fst (snd t)) = ?avg u"
    by auto
  from u obtain k where k: "k \<in> ID ` set df"
    and uk: "u = (k, length (filter (\<lambda>x. ID x = k) df),
                  sum_list (map overall_hit (filter (\<lambda>x. ID x = k) df)))"
    unfolding df_temp_rows by auto
  from tu uk have "fst t = k"
    and "fst (snd t) = (length (filter (\<lambda>x. ID x = k) df),
           sum_list (map overall_hit (filter (\<lambda>x. ID x = k) df)),
           of_int (sum_list (map overall_hit (filter (\<lambda>x. ID x = k) df)))
             / of_nat (length (filter (\<lambda>x. ID x = k) df)))"
    by simp_all
  with r k show ?thesis by simp
qed



lemma get_average_hit_has_row:
  assumes "k \<in> ID ` set df"
  shows "\<exists>g. \<lparr> hit_ID = k, ID_count = length (filter (\<lambda>x. ID x = k) df),
               total_hits = sum_list (map overall_hit (filter (\<lambda>x. ID x = k) df)),
               average_hit = of_int (sum_list (map overall_hit (filter (\<lambda>x. ID x = k) df)))
                               / of_nat (length (filter (\<lambda>x. ID x = k) df)),
               geometry = g \<rparr> \<in> set (fst (get_average_hit df global_df))"
proof -
  let ?temp = "merge_inner (value_counts (map ID df)) (groupby_sum df)"
  let ?avg = "\<lambda>t. (fst t, (fst (snd t), snd (snd t), (of_int (snd (snd t)) :: rat) / of_nat (fst (snd t))))"
  let ?row = "\<lambda>t. \<lparr> hit_ID = fst t, ID_count = fst (fst (snd t)),
                  total_hits = fst (snd (fst (snd t))),
                  average_hit = snd (snd (fst (snd t))), geometry = snd (snd t) \<rparr>"
  let ?n = "length (filter (\<lambda>x. ID x = k) df)"
  let ?h = "sum_list (map overall_hit (filter (\<lambda>x. ID x = k) df))"
  have res: "fst (get_average_hit df global_df) = map ?row (merge_left (map ?avg ?temp) global_df)"
    by (simp add: get_average_hit_def Let_def)
  from assms have "(k, ?n, ?h) \<in> set ?temp"
    unfolding df_temp_rows by (rule imageI)
  then have "?avg (k, ?n, ?h) \<in> ?avg ` set ?temp"
    by (rule imageI)
  then have l: "(k, (?n, ?h, of_int ?h / of_nat ?n)) \<in> set (map ?avg ?temp)"
    by simp
  from merge_left_keeps_left [OF l, of global_df] obtain g
    where g: "(k, (?n, ?h, of_int ?h / of_nat ?n), g) \<in> set (merge_left (map ?avg ?temp) global_df)"
    by auto
  have "?row (k, (?n, ?h, of_int ?h / of_nat ?n), g) \<in> ?row ` set (merge_left (map ?avg ?temp) global_df)"
    using g by (rule imageI)
  then have "\<lparr> hit_ID = k, ID_count = ?n, total_hits = ?h, average_hit = of_int ?h / of_nat ?n,
               geometry = g \<rparr> \<in> set (fst (get_average_hit df global_df))"
    unfolding res by simp
  then show ?thesis ..
qed


text \<open>
  C7. The aggregate over the test rows of all runs has one identifier for each polygon
  that is in at least one test row and for no other polygon; each of its rows gives the
  number of test rows of its polygon (at least one), the sum of their hits and, as the
  average hit, the quotient of the two. A polygon with two test rows and one hit has the
  average hit one half.
\<close>

theorem get_average_hit_per_polygon:
  fixes runs :: "('k::linorder) y_row list list"
  shows "hit_ID ` set (fst (get_average_hit (concat runs) global_df)) = ID ` set (concat runs)
     \<and> (\<forall>r \<in> set (fst (get_average_hit (concat runs) global_df)).
           ID_count r = length (filter (\<lambda>x. ID x = hit_ID r) (concat runs))
         \<and> 0 < ID_count r
         \<and> total_hits r = sum_list (map overall_hit (filter (\<lambda>x. ID x = hit_ID r) (concat runs)))
         \<and> average_hit r = of_int (total_hits r) / of_nat (ID_count r)
         \<and> (ID_count r = 2 \<and> total_hits r = 1 \<longrightarrow> average_hit r = 1 / 2))"
proof (intro conjI ballI)
  let ?df = "concat runs"
  show "hit_ID ` set (fst (get_average_hit ?df global_df)) = ID ` set ?df"
  proof
    show "hit_ID ` set (fst (get_average_hit ?df global_df)) \<subseteq> ID ` set ?df"
      using get_average_hit_row [of _ ?df global_df] by blast
  next
    show "ID ` set ?df \<subseteq> hit_ID ` set (fst (get_average_hit ?df global_df))"
    proof
      fix k assume "k \<in> ID ` set ?df"
      from get_average_hit_has_row [OF this, of global_df] obtain r
        where "r \<in> set (fst (get_average_hit ?df global_df))" and "hit_ID r = k"
        by fastforce
      then show "k \<in> hit_ID ` set (fst (get_average_hit ?df global_df))"
        by blast
    qed
  qed
next
  fix r assume r: "r \<in> set (fst (get_average_hit (concat runs) global_df))"
  note row = get_average_hit_row [OF r]
  from row show n: "ID_count r = length (filter (\<lambda>x. ID x = hit_ID r) (concat runs))"
    by simp
  from row have "hit_ID r \<in> ID ` set (concat runs)" by simp
  then have "filter (\<lambda>x. ID x = hit_ID r) (concat runs) \<noteq> []"
    unfolding filter_empty_conv image_iff by metis
  with n show "0 < ID_count r" by simp
  from row show "total_hits r = sum_list (map overall_hit (filter (\<lambda>x. ID x = hit_ID r) (concat runs)))"
    by simp
  from row show avg: "average_hit r = of_int (total_hits r) / of_nat (ID_count r)"
    by simp
  show "ID_count r = 2 \<and> total_hits r = 1 \<longrightarrow> average_hit r = 1 / 2"
    using avg by simp
qed

theorem get_average_hit_per_polygon_witness:
  "fst (get_average_hit (concat runs1) gdf3) =
     [\<lparr> hit_ID = 1, ID_count = 2, total_hits = 1, average_hit = 1 / 2, geometry = Some 10 \<rparr>,
      \<lparr> hit_ID = 2, ID_count = 1, total_hits = 1, average_hit = 1, geometry = Some 20 \<rparr>]
   \<and> hit_ID ` set (fst (get_average_hit (concat runs1) gdf3)) = ID ` set (concat runs1)
   \<and> 3 \<notin> hit_ID ` set (fst (get_average_hit (concat runs1) gdf3))
   \<and> ID_count (hd (fst (get_average_hit (concat runs1) gdf3))) = 2
   \<and> total_hits (hd (fst (get_average_hit (concat runs1) gdf3))) = 1
   \<and> average_hit (hd (fst (get_average_hit (concat runs1) gdf3))) = 1 / 2"
proof -
  let ?res = "fst (get_average_hit (concat runs1) gdf3)"
  have ev: "?res =
     [\<lparr> hit_ID = 1, ID_count = 2, total_hits = 1, average_hit = 1 / 2, geometry = Some 10 \<rparr>,
      \<lparr> hit_ID = 2, ID_count = 1, total_hits = 1, average_hit = 1, geometry = Some 20 \<rparr>]"
    by (simp add: get_average_hit_def value_counts_def groupby_sum_def merge_inner_def
        merge_left_def runs1_def gdf3_def Let_def numeral_2_eq_2)
  note spec = get_average_hit_per_polygon [of runs1 gdf3]
  from spec have ids: "hit_ID ` set ?res = ID ` set (concat runs1)"
    by (rule conjunct1)
  have "3 \<notin> ID ` set (concat runs1)"
    by (simp add: runs1_def)
  with ids have absent: "3 \<notin> hit_ID ` set ?res" by simp
  have mem: "hd ?res \<in> set ?res" and two: "ID_count (hd ?res) = 2" and one: "total_hits (hd ?res) = 1"
    by (simp_all add: ev)
  from spec mem have "ID_count (hd ?res) = 2 \<and> total_hits (hd ?res) = 1 \<longrightarrow> average_hit (hd ?res) = 1 / 2"
    by blast
  with two one have "average_hit (hd ?res) = 1 / 2" by blast
  with ev ids absent two one show ?thesis by blast
qed

section \<open>Splitting and scaling\<close>

lemma split_conflict_geom_data_Inr:
  "split_conflict_geom_data m = Inr (ids, geoms, rows) \<Longrightarrow>
     ids = map (\<lambda>row. row ! 0) m \<and> geoms = map (\<lambda>row. row ! 1) m \<and> rows = map (drop 2) m"
  by (auto simp: split_conflict_geom_data_def split: if_splits)

lemma column_stack_Inr:
  "column_stack a b c = Inr m \<Longrightarrow>
     length a = length b \<and> length b = length c
     \<and> m = map (\<lambda>i. a ! i # b ! i # c ! i) [0..<length a]"
  by (auto simp: column_stack_def split: if_splits)

lemma train_test_split_Inr:
  "train_test_split X Y draw = Inr (X_train, X_test, y_train, y_test) \<Longrightarrow>
     X_train = map (\<lambda>i. X ! i) (fst draw) \<and> X_test = map (\<lambda>i. X ! i) (snd draw)
     \<and> y_train = map (\<lambda>i. Y ! i) (fst draw) \<and> y_test = map (\<lambda>i. Y ! i) (snd draw)
     \<and> length X = length Y"
  by (auto simp: train_test_split_def split: if_splits)

lemma split_scale_steps:
  assumes "split_scale_train_test_split sp fit_transform draw X Y =
             Inr (X_train, X_test, y_train, y_test, X_train_geom, X_test_geom, X_train_ID, X_test_ID)"
  shows "\<exists>X_ID X_geom X_data X_ft X_cs X_train0 X_test0.
           sp X = Inr (X_ID, X_geom, X_data)
         \<and> fit_transform X_data = Inr X_ft
         \<and> column_stack X_ID X_geom X_ft = Inr X_cs
         \<and> train_test_split X_cs Y draw = Inr (X_train0, X_test0, y_train, y_test)
         \<and> sp X_train0 = Inr (X_train_ID, X_train_geom, X_train)
         \<and> sp X_test0 = Inr (X_test_ID, X_test_geom, X_test)
         \<and> length X_test_ID = length X_test \<and> length X_test_geom = length X_test"
  using assms unfolding split_scale_train_test_split_def
  by (auto split: sum.splits prod.splits if_splits)


text \<open>
  The two assertions of the operation are on the test partition, for whatever the column
  split returns.
\<close>

lemma split_scale_asserts_test_partition:
  assumes "sp X = Inr (X_ID, X_geom, X_data)"
    and "fit_transform X_data = Inr X_ft"
    and "column_stack X_ID X_geom X_ft = Inr X_cs"
    and "train_test_split X_cs Y draw = Inr (X_train0, X_test0, y_train, y_test)"
    and "sp X_train0 = Inr (X_train_ID, X_train_geom, X_train)"
    and "sp X_test0 = Inr (X_test_ID, X_test_geom, X_test)"
  shows "split_scale_train_test_split sp fit_transform draw X Y =
           (if length X_test_ID \<noteq> length X_test
            then Inl (AssertionError ''lenght X_test_ID does not match lenght X_test'')
            else if length X_test_geom \<noteq> length X_test
            then Inl (AssertionError ''lenght X_test_geom does not match lenght X_test'')
            else Inr (X_train, X_test, y_train, y_test,
                      X_train_geom, X_test_geom, X_train_ID, X_test_ID))"
  using assms by (simp add: split_scale_train_test_split_def)



text \<open>
  C8. With the column split of the spec, for every scaler and every draw of rows of the
  input: the identifiers and geometries of the returned train and test partitions are
  the first and the second cell of the input rows drawn, in the order drawn, and the
  feature rows returned are the rows the scaler gave for the remaining columns.
\<close>

theorem split_scale_keeps_id_and_geometry:
  assumes "split_scale_train_test_split split_conflict_geom_data fit_transform draw X Y =
             Inr (X_train, X_test, y_train, y_test, X_train_geom, X_test_geom, X_train_ID, X_test_ID)"
    and "\<forall>i \<in> set (fst draw) \<union> set (snd draw). i < length X"
  shows "X_train_ID = map (\<lambda>i. X ! i ! 0) (fst draw)
       \<and> X_train_geom = map (\<lambda>i. X ! i ! 1) (fst draw)
       \<and> X_test_ID = map (\<lambda>i. X ! i ! 0) (snd draw)
       \<and> X_test_geom = map (\<lambda>i. X ! i ! 1) (snd draw)
       \<and> (\<exists>X_ft. fit_transform (map (drop 2) X) = Inr X_ft
             \<and> X_train = map (\<lambda>i. X_ft ! i) (fst draw)
             \<and> X_test = map (\<lambda>i. X_ft ! i) (snd draw))"
proof -
  from split_scale_steps [OF assms(1)] obtain X_ID X_geom X_data X_ft X_cs X_train0 X_test0
    where s1: "split_conflict_geom_data X = Inr (X_ID, X_geom, X_data)"
      and s2: "fit_transform X_data = Inr X_ft"
      and s3: "column_stack X_ID X_geom X_ft = Inr X_cs"
      and s4: "train_test_split X_cs Y draw = Inr (X_train0, X_test0, y_train, y_test)"
      and s5: "split_conflict_geom_data X_train0 = Inr (X_train_ID, X_train_geom, X_train)"
      and s6: "split_conflict_geom_data X_test0 = Inr (X_test_ID, X_test_geom, X_test)"
    by blast
  from s1 have cols: "X_ID = map (\<lambda>row. row ! 0) X" "X_geom = map (\<lambda>row. row ! 1) X"
    "X_data = map (drop 2) X"
    using split_conflict_geom_data_Inr by blast+
  from s3 have len: "length X_ID = length X_geom" "length X_geom = length X_ft"
    and cs: "X_cs = map (\<lambda>i. X_ID ! i # X_geom ! i # X_ft ! i) [0..<length X_ID]"
    using column_stack_Inr by blast+
  have row: "X_cs ! i = X ! i ! 0 # X ! i ! 1 # X_ft ! i" if "i < length X" for i
    using that by (simp add: cs cols)
  from s4 have parts: "X_train0 = map (\<lambda>i. X_cs ! i) (fst draw)"
    "X_test0 = map (\<lambda>i. X_cs ! i) (snd draw)"
    using train_test_split_Inr by blast+
  from s5 have tr: "X_train_ID = map (\<lambda>row. row ! 0) X_train0"
    "X_train_geom = map (\<lambda>row. row ! 1) X_train0" "X_train = map (drop 2) X_train0"
    using split_conflict_geom_data_Inr by blast+
  from s6 have te: "X_test_ID = map (\<lambda>row. row ! 0) X_test0"
    "X_test_geom = map (\<lambda>row. row ! 1) X_test0" "X_test = map (drop 2) X_test0"
    using split_conflict_geom_data_Inr by blast+
  from assms(2) have in_tr: "i < length X" if "i \<in> set (fst draw)" for i
    using that by blast
  from assms(2) have in_te: "i < length X" if "i \<in> set (snd draw)" for i
    using that by blast
  have "X_train_ID = map (\<lambda>i. X ! i ! 0) (fst draw)"
    by (simp add: tr parts row in_tr)
  moreover have "X_train_geom = map (\<lambda>i. X ! i ! 1) (fst draw)"
    by (simp add: tr parts row in_tr)
  moreover have "X_test_ID = map (\<lambda>i. X ! i ! 0) (snd draw)"
    by (simp add: te parts row in_te)
  moreover have "X_test_geom = map (\<lambda>i. X ! i ! 1) (snd draw)"
    by (simp add: te parts row in_te)
  moreover have "X_train = map (\<lambda>i. X_ft ! i) (fst draw)"
    by (simp add: tr parts row in_tr)
  moreover have "X_test = map (\<lambda>i. X_ft ! i) (snd draw)"
    by (simp add: te parts row in_te)
  moreover from s2 cols have "fit_transform (map (drop 2) X) = Inr X_ft"
    by simp
  ultimately show ?thesis by blast
qed


theorem split_scale_keeps_id_and_geometry_witness:
  "split_scale_train_test_split split_conflict_geom_data halve ([0, 2], [1]) X3 [0, 1, 1] =
     Inr ([[CFloat 2, CFloat 0], [CFloat 3, CFloat 0]], [[CFloat 4, CFloat 1]], [0, 1], [1],
          [CObj 10, CObj 30], [CObj 20], [CInt 1, CInt 3], [CInt 2])
   \<and> [CInt 1, CInt 3] = map (\<lambda>i. X3 ! i ! 0) [0, 2]
   \<and> [CObj 10, CObj 30] = map (\<lambda>i. X3 ! i ! 1) [0, 2]
   \<and> [CInt 2] = map (\<lambda>i. X3 ! i ! 0) [1]
   \<and> [CObj 20] = map (\<lambda>i. X3 ! i ! 1) [1]"
proof -
  have r: "split_scale_train_test_split split_conflict_geom_data halve ([0, 2], [1]) X3 [0, 1, 1] =
     Inr ([[CFloat 2, CFloat 0], [CFloat 3, CFloat 0]], [[CFloat 4, CFloat 1]], [0, 1], [1],
          [CObj 10, CObj 30], [CObj 20], [CInt 1, CInt 3], [CInt 2])"
    by (simp add: split_scale_train_test_split_def split_conflict_geom_data_def
        halve_def column_stack_def train_test_split_def X3_def upt_rec numeral_nat)
  have v: "\<forall>i \<in> set (fst ([0, 2], [1])) \<union> set (snd ([0, 2], [1])). i < length X3"
    by (simp add: X3_def)
  from split_scale_keeps_id_and_geometry [OF r v] r show ?thesis
    by simp
qed

section \<open>Unsupported scalers and models\<close>

lemma define_scaling_unsupported:
  "cfg_scaler cfg \<notin> {''MinMaxScaler'', ''StandardScaler'', ''RobustScaler'', ''QuantileTransformer''}
     \<Longrightarrow> define_scaling cfg = Inl (ValueError
           ''no supported scaling-algorithm selected - choose between MinMaxScaler, StandardScaler, RobustScaler or QuantileTransformer'')"
  by (simp add: define_scaling_def)

lemma define_model_unsupported:
  "cfg_model cfg \<notin> {''NuSVC'', ''KNeighborsClassifier'', ''RFClassifier''}
     \<Longrightarrow> define_model cfg = Inl (ValueError
           ''no supported ML model selected - choose between NuSVC, KNeighborsClassifier or RFClassifier'')"
  by (simp add: define_model_def)

lemma prepare_ML_unsupported:
  assumes "cfg_scaler cfg \<notin> {''MinMaxScaler'', ''StandardScaler'', ''RobustScaler'', ''QuantileTransformer''}
         \<or> cfg_model cfg \<notin> {''NuSVC'', ''KNeighborsClassifier'', ''RFClassifier''}"
  shows "\<exists>msg. prepare_ML cfg = Inl (ValueError msg)"
proof (cases "cfg_scaler cfg \<in> {''MinMaxScaler'', ''StandardScaler'', ''RobustScaler'', ''QuantileTransformer''}")
  case False
  then show ?thesis
    by (simp add: prepare_ML_def define_scaling_unsupported)
next
  case True
  with assms have "cfg_model cfg \<notin> {''NuSVC'', ''KNeighborsClassifier'', ''RFClassifier''}"
    by blast
  then have "define_model cfg = Inl (ValueError
      ''no supported ML model selected - choose between NuSVC, KNeighborsClassifier or RFClassifier'')"
    by (rule define_model_unsupported)
  moreover from True obtain s where "define_scaling cfg = Inr s"
    by (auto simp: define_scaling_def)
  ultimately show ?thesis
    by (simp add: prepare_ML_def)
qed

text \<open>
  C4. A configuration that names a scaler outside MinMaxScaler, StandardScaler,
  RobustScaler and QuantileTransformer, or a model outside NuSVC, KNeighborsClassifier
  and RFClassifier, makes \<open>prepare_ML\<close> raise a ValueError. The main script does not
  get that far: when the calls before line 42 return, it ends with the TypeError of the
  call of \<open>create_XY\<close>, whatever the scaler and the model, and with the files those
  calls touched.
\<close>

theorem unsupported_choice_not_reached:
  assumes "cfg_scaler cfg \<notin> {''MinMaxScaler'', ''StandardScaler'', ''RobustScaler'', ''QuantileTransformer''}
         \<or> cfg_model cfg \<notin> {''NuSVC'', ''KNeighborsClassifier'', ''RFClassifier''}"
  shows "(\<exists>msg. prepare_ML cfg = Inl (ValueError msg))
       \<and> (col_select col cfg = (ev, None) \<longrightarrow>
            main col cfg =
              (ev, TypeError
                     ''create_XY() missing 2 required positional arguments: polygon_gdf and conflict_gdf''))"
  using prepare_ML_unsupported [OF assms] by (simp add: main_def)

theorem unsupported_choice_not_reached_witness:
  "cfg_scaler cfg2 \<notin> {''MinMaxScaler'', ''StandardScaler'', ''RobustScaler'', ''QuantileTransformer''}
   \<and> prepare_ML cfg2 = Inl (ValueError
         ''no supported scaling-algorithm selected - choose between MinMaxScaler, StandardScaler, RobustScaler or QuantileTransformer'')
   \<and> col_select col1 cfg2 = ([], None)
   \<and> main col1 cfg2 =
       ([], TypeError
              ''create_XY() missing 2 required positional arguments: polygon_gdf and conflict_gdf'')"
proof -
  have h: "cfg_scaler cfg2 \<notin> {''MinMaxScaler'', ''StandardScaler'', ''RobustScaler'', ''QuantileTransformer''}"
    by (simp add: cfg2_def)
  then have d: "cfg_scaler cfg2 \<notin> {''MinMaxScaler'', ''StandardScaler'', ''RobustScaler'', ''QuantileTransformer''}
         \<or> cfg_model cfg2 \<notin> {''NuSVC'', ''KNeighborsClassifier'', ''RFClassifier''}" ..
  have s: "col_select col1 cfg2 = ([], None)"
    by (simp add: col1_def)
  have p: "prepare_ML cfg2 = Inl (ValueError
         ''no supported scaling-algorithm selected - choose between MinMaxScaler, StandardScaler, RobustScaler or QuantileTransformer'')"
    by (simp add: prepare_ML_def define_scaling_def cfg2_def)
  note spec = unsupported_choice_not_reached [OF d, of col1 "[]"]
  from spec s have m: "main col1 cfg2 =
       ([], TypeError
              ''create_XY() missing 2 required positional arguments: polygon_gdf and conflict_gdf'')"
    by (elim conjE impE)
  show ?thesis
    by (intro conjI h p s m)
qed

section \<open>Filling the sample store\<close>

lemma dict_set_keys: "fst ` set (dict_set d k v) = insert k (fst ` set d)"
  by (induction d k v rule: dict_set.induct) auto

lemma initiate_XY_data_has_conflict: "''conflict'' \<in> fst ` set (initiate_XY_data cfg)"
  by (simp add: initiate_XY_data_def Let_def dict_set_keys)

lemma fill_columns_raises:
  "\<exists>kv \<in> set XY. \<exists>e. f kv = Inl e \<Longrightarrow> \<exists>e. fill_columns f XY = Inl e"
proof (induction XY)
  case Nil
  then show ?case by simp
next
  case (Cons kv XY)
  show ?case
  proof (cases "f kv")
    case (Inl e)
    then show ?thesis by simp
  next
    case (Inr kv')
    with Cons.prems have "\<exists>kv \<in> set XY. \<exists>e. f kv = Inl e" by auto
    then obtain e where "fill_columns f XY = Inl e"
      using Cons.IH by blast
    with Inr show ?thesis by simp
  qed
qed

lemma column_ref_conflict:
  "column_ref env cfg root_dir sim_year (''conflict'', value) = Inl (NameError ''conflict_gdf'')"
  by (simp add: column_ref_def)

lemma two_years: "a < b \<Longrightarrow> \<exists>rest. [a..b] = a # (a + 1) # rest"
  by (simp add: upto_rec1 [of a b] upto_rec1 [of "a + 1" b])

lemma zip_two_years:
  "\<exists>tail. zip (a # b # rest) [0..<length (a # b # rest)] = (a, 0) # (b, Suc 0) # tail"
  by (simp add: upt_conv_Cons del: upt_Suc)

lemma fill_years_second_year:
  assumes "\<exists>e. step y XY = Inl e"
  shows "\<exists>e. fill_years step ((y0, 0) # (y, Suc 0) # rest) XY = Inl e"
  using assms by auto

text \<open>
  C1. In reference mode over a range of two years or more, on the store that
  \<open>initiate_XY_data\<close> gives, \<open>fill_XY\<close> raises: the first year is skipped, and in the
  second the column \<open>conflict\<close> (if no column before it has raised) is filled with a call
  whose argument \<open>conflict_gdf\<close> is not a name of the function. No column reaches the
  length the years and the polygons would give.
\<close>

theorem fill_XY_reference_raises:
  assumes "cfg_y_start cfg < cfg_y_end cfg"
  shows "\<exists>e. fill_XY (initiate_XY_data cfg) env cfg root_dir (Some out_dir) False None = Inl e"
proof -
  let ?XY = "initiate_XY_data cfg"
  let ?step = "\<lambda>sim_year. fill_columns (column_ref env cfg root_dir sim_year)"
  from two_years [OF assms] obtain rest
    where period: "[cfg_y_start cfg..cfg_y_end cfg] = cfg_y_start cfg # (cfg_y_start cfg + 1) # rest"
    by blast
  obtain series where "(''conflict'', series) \<in> set ?XY"
    using initiate_XY_data_has_conflict [of cfg] by force
  then have "\<exists>kv \<in> set ?XY. \<exists>e. column_ref env cfg root_dir (cfg_y_start cfg + 1) kv = Inl e"
    using column_ref_conflict by blast
  then have "\<exists>e. ?step (cfg_y_start cfg + 1) ?XY = Inl e"
    by (rule fill_columns_raises)
  then have "\<exists>e. fill_years ?step
               ((cfg_y_start cfg, 0) # (cfg_y_start cfg + 1, Suc 0) # tail) ?XY = Inl e" for tail
    by (rule fill_years_second_year)
  moreover obtain tail
    where "zip [cfg_y_start cfg..cfg_y_end cfg] [0..<length [cfg_y_start cfg..cfg_y_end cfg]] =
      (cfg_y_start cfg, 0) # (cfg_y_start cfg + 1, Suc 0) # tail"
    unfolding period using zip_two_years [of "cfg_y_start cfg" "cfg_y_start cfg + 1" rest] by blast
  ultimately obtain e where "fill_XY_ref ?XY env cfg root_dir [cfg_y_start cfg..cfg_y_end cfg] = Inl e"
    unfolding fill_XY_ref_def by auto
  moreover have "[cfg_y_start cfg..cfg_y_end cfg] \<noteq> []"
    unfolding period by simp
  ultimately show ?thesis
    by (simp add: fill_XY_def Let_def)
qed


theorem fill_XY_reference_raises_witness:
  "cfg_y_start cfg1 < cfg_y_end cfg1
   \<and> (\<exists>e. fill_XY (initiate_XY_data cfg1) env1 cfg1 ''root'' (Some ''out'') False None = Inl e)"
proof -
  have h: "cfg_y_start cfg1 < cfg_y_end cfg1"
    by (simp add: cfg1_def)
  from fill_XY_reference_raises [OF h] h show ?thesis
    by blast
qed

lemma initiate_XY_data_cfg1:
  "initiate_XY_data cfg1 =
     [(''poly_ID'', []), (''poly_geometry'', []), (''rainfall'', []),
      (''conflict_t_min_1'', []), (''conflict_t_min_1_nb'', []), (''conflict'', [])]"
  by (simp add: initiate_XY_data_def cfg1_def)

lemma fill_XY_reference_cfg1:
  "fill_XY (initiate_XY_data cfg1) env1 cfg1 ''root'' (Some ''out'') False None =
     Inl (NameError ''conflict_gdf'')"
proof -
  have years: "[cfg_y_start cfg1..cfg_y_end cfg1] = [2000, 2001, 2002]"
    by (simp add: cfg1_def)
  have path: "nc_path cfg1 ''root'' ''rainfall'' = Inr ''root/input/rain.nc''"
    by (simp add: nc_path_def cfg1_def path_join_def)
  have step: "fill_columns (column_ref env1 cfg1 ''root'' 2001) (initiate_XY_data cfg1) =
                Inl (NameError ''conflict_gdf'')"
    by (simp add: initiate_XY_data_cfg1 column_ref_def path append_series_def env1_def)
  show ?thesis
    by (simp add: fill_XY_def years fill_XY_ref_def upt_conv_Cons step del: upt_Suc)
qed

lemma fill_XY_single_year:
  "fill_XY (initiate_XY_data cfg1) env1 (cfg1 \<lparr> cfg_y_end := 2000 \<rparr>) ''root'' (Some ''out'') False None =
     Inr \<lparr> arr_ncols = 6, arr_rows = [] \<rparr>"
proof -
  have "fill_XY [(''poly_ID'', []), (''poly_geometry'', []), (''rainfall'', []),
      (''conflict_t_min_1'', []), (''conflict_t_min_1_nb'', []), (''conflict'', [])]
      env1 (cfg1 \<lparr> cfg_y_end := 2000 \<rparr>) ''root'' (Some ''out'') False None =
        Inr \<lparr> arr_ncols = 6, arr_rows = [] \<rparr>"
    by (simp add: fill_XY_def fill_XY_ref_def from_dict_to_numpy_def cfg1_def)
  then show ?thesis
    by (simp only: initiate_XY_data_cfg1)
qed

text \<open>
  C2. A variable whose raster has a time axis of a dtype other than float32, float64 and
  datetime64[ns] is not read in either way: the branch that raises the Warning formats
  its message with \<open>nc_fo\<close>, which is no name of the function, and what is raised is that
  NameError, in reference mode and in projection mode; its message does not hold the
  name of the variable.
\<close>

theorem unsupported_time_dtype_raises_NameError:
  assumes "key \<notin> {''conflict'', ''conflict_t_min_1'', ''conflict_t_min_1_nb'', ''poly_ID'', ''poly_geometry''}"
    and "nc_path cfg root_dir key = Inr path"
    and "env_open_dataset env path = Inr t"
    and "t \<notin> {Float32, Float64, Datetime64_ns}"
  shows "column_ref env cfg root_dir sim_year (key, series) = Inl (NameError ''nc_fo'')
       \<and> column_proj env cfg root_dir neighboring_matrix proj_year (key, series) = Inl (NameError ''nc_fo'')"
  using assms by (simp add: column_ref_def column_proj_def)

theorem unsupported_time_dtype_raises_NameError_witness:
  "''rainfall'' \<notin> {''conflict'', ''conflict_t_min_1'', ''conflict_t_min_1_nb'', ''poly_ID'', ''poly_geometry''}
   \<and> nc_path cfg1 ''root'' ''rainfall'' = Inr ''root/input/rain.nc''
   \<and> env_open_dataset env2 ''root/input/rain.nc'' = Inr (OtherDtype ''int64'')
   \<and> OtherDtype ''int64'' \<notin> {Float32, Float64, Datetime64_ns}
   \<and> column_ref env2 cfg1 ''root'' 2001 (''rainfall'', []) = Inl (NameError ''nc_fo'')
   \<and> column_proj env2 cfg1 ''root'' (neighboring_polys (env_touches env2) (env_polygon_gdf env2))
        2030 (''rainfall'', []) = Inl (NameError ''nc_fo'')"
proof -
  have 1: "''rainfall'' \<notin> {''conflict'', ''conflict_t_min_1'', ''conflict_t_min_1_nb'', ''poly_ID'', ''poly_geometry''}"
    by simp
  have 2: "nc_path cfg1 ''root'' ''rainfall'' = Inr ''root/input/rain.nc''"
    by (simp add: nc_path_def cfg1_def path_join_def)
  have 3: "env_open_dataset env2 ''root/input/rain.nc'' = Inr (OtherDtype ''int64'')"
    by (simp add: env2_def)
  have 4: "OtherDtype ''int64'' \<notin> {Float32, Float64, Datetime64_ns}"
    by simp
  note r = unsupported_time_dtype_raises_NameError [OF 1 2 3 4]
  show ?thesis
    by (intro conjI 1 2 3 4 r [THEN conjunct1] r [THEN conjunct2])
qed

lemma fill_XY_unsupported_dtype_cfg1:
  "fill_XY (initiate_XY_data cfg1) env2 cfg1 ''root'' (Some ''out'') False None =
     Inl (NameError ''nc_fo'')"
  "fill_XY (initiate_X_data cfg1) env2 cfg1 ''root'' (Some ''out'') True (Some 2030) =
     Inl (NameError ''nc_fo'')"
proof -
  have years: "[cfg_y_start cfg1..cfg_y_end cfg1] = [2000, 2001, 2002]"
    by (simp add: cfg1_def)
  have path: "nc_path cfg1 ''root'' ''rainfall'' = Inr ''root/input/rain.nc''"
    by (simp add: nc_path_def cfg1_def path_join_def)
  have step: "fill_columns (column_ref env2 cfg1 ''root'' 2001) (initiate_XY_data cfg1) =
                Inl (NameError ''nc_fo'')"
    by (simp add: initiate_XY_data_cfg1 column_ref_def path append_series_def env2_def env1_def)
  show "fill_XY (initiate_XY_data cfg1) env2 cfg1 ''root'' (Some ''out'') False None =
     Inl (NameError ''nc_fo'')"
    by (simp add: fill_XY_def years fill_XY_ref_def upt_conv_Cons step del: upt_Suc)
  have X: "initiate_X_data cfg1 =
     [(''poly_ID'', []), (''poly_geometry'', []), (''rainfall'', []),
      (''conflict_t_min_1'', []), (''conflict_t_min_1_nb'', [])]"
    by (simp add: initiate_X_data_def cfg1_def)
  show "fill_XY (initiate_X_data cfg1) env2 cfg1 ''root'' (Some ''out'') True (Some 2030) =
     Inl (NameError ''nc_fo'')"
    by (simp add: fill_XY_def fill_XY_proj_def X column_proj_def path append_series_def
        env2_def env1_def)
qed

subsection \<open>The growth of the columns\<close>

lemma append_series_grows:
  "append_series key series data = Inr kv' \<Longrightarrow> \<forall>l. data = Inr l \<longrightarrow> length l = p
     \<Longrightarrow> fst kv' = key \<and> length (snd kv') = length series + p"
  by (auto simp: append_series_def split: sum.splits)

lemma column_ref_grows:
  assumes "column_ref env cfg root_dir sim_year kv = Inr kv'" and "returns_per_polygon env p"
  shows "fst kv' = fst kv \<and> length (snd kv') = length (snd kv) + p"
  using assms unfolding column_ref_def returns_per_polygon_def Let_def
  by (auto split: if_splits sum.splits dest!: append_series_grows)

lemma column_proj_grows:
  assumes "column_proj env cfg root_dir nb proj_year kv = Inr kv'" and "returns_per_polygon env p"
  shows "fst kv' = fst kv \<and> length (snd kv') = length (snd kv) + p"
  using assms unfolding column_proj_def returns_per_polygon_def Let_def
  by (auto split: if_splits sum.splits dest!: append_series_grows)

lemma fill_columns_grows:
  assumes "fill_columns f XY = Inr XY'"
    and "\<And>kv kv'. f kv = Inr kv' \<Longrightarrow> fst kv' = fst kv \<and> length (snd kv') = length (snd kv) + p"
  shows "map fst XY' = map fst XY
       \<and> map (\<lambda>kv. length (snd kv)) XY' = map (\<lambda>kv. length (snd kv) + p) XY"
  using assms(1)
proof (induction XY arbitrary: XY')
  case Nil
  then show ?case by simp
next
  case (Cons kv XY)
  from Cons.prems obtain kv' rest where kv': "f kv = Inr kv'"
    and rest: "fill_columns f XY = Inr rest" and XY': "XY' = kv' # rest"
    by (auto split: sum.splits)
  from Cons.IH [OF rest] assms(2) [OF kv'] XY' show ?case
    by simp
qed


lemma fill_years_grows:
  assumes "fill_years step yis XY = Inr XY'"
    and "\<And>y XY XY'. step y XY = Inr XY' \<Longrightarrow>
           map fst XY' = map fst XY
         \<and> map (\<lambda>kv. length (snd kv)) XY' = map (\<lambda>kv. length (snd kv) + p) XY"
  shows "map fst XY' = map fst XY
       \<and> map (\<lambda>kv. length (snd kv)) XY' =
           map (\<lambda>kv. length (snd kv) + length (filter (\<lambda>yi. snd yi \<noteq> 0) yis) * p) XY"
  using assms(1)
proof (induction yis arbitrary: XY)
  case Nil
  then show ?case by simp
next
  case (Cons yi yis)
  show ?case
  proof (cases "snd yi = 0")
    case True
    with Cons.prems have "fill_years step yis XY = Inr XY'" by simp
    from Cons.IH [OF this] True show ?thesis by simp
  next
    case False
    with Cons.prems obtain XYa where s: "step (fst yi) XY = Inr XYa"
      and r: "fill_years step yis XYa = Inr XY'"
      by (auto split: sum.splits)
    note one = assms(2) [OF s]
    note more = Cons.IH [OF r]
    have "map (\<lambda>kv. length (snd kv) + length (filter (\<lambda>yi. snd yi \<noteq> 0) yis) * p) XYa =
          map (\<lambda>n. n + length (filter (\<lambda>yi. snd yi \<noteq> 0) yis) * p) (map (\<lambda>kv. length (snd kv)) XYa)"
      by (simp add: comp_def)
    also have "\<dots> = map (\<lambda>n. n + length (filter (\<lambda>yi. snd yi \<noteq> 0) yis) * p)
                        (map (\<lambda>kv. length (snd kv) + p) XY)"
      using one by simp
    also have "\<dots> = map (\<lambda>kv. length (snd kv) + length (filter (\<lambda>yi. snd yi \<noteq> 0) (yi # yis)) * p) XY"
      using False by (simp add: comp_def)
    finally show ?thesis
      using one more by simp
  qed
qed

lemma years_not_skipped:
  "length (filter (\<lambda>yi. snd yi \<noteq> 0) (zip ys [0..<length ys])) = length ys - 1"
proof (cases ys)
  case Nil
  then show ?thesis by simp
next
  case (Cons y rest)
  have z: "zip (y # rest) [0..<length (y # rest)] = (y, 0) # zip rest [Suc 0..<Suc (length rest)]"
    by (simp add: upt_conv_Cons del: upt_Suc)
  have keep: "filter (\<lambda>yi. snd yi \<noteq> 0) (zip rest [Suc 0..<Suc (length rest)]) =
          zip rest [Suc 0..<Suc (length rest)]"
  proof (rule filter_True, rule ballI)
    fix yi assume "yi \<in> set (zip rest [Suc 0..<Suc (length rest)])"
    then have "snd yi \<in> set [Suc 0..<Suc (length rest)]"
      by (metis prod.collapse set_zip_rightD)
    then show "snd yi \<noteq> 0"
      by (simp del: upt_Suc)
  qed
  have "filter (\<lambda>yi. snd yi \<noteq> 0) (zip ys [0..<length ys]) =
          zip rest [Suc 0..<Suc (length rest)]"
    unfolding Cons z using keep by simp
  then have "length (filter (\<lambda>yi. snd yi \<noteq> 0) (zip ys [0..<length ys])) = length rest"
    by (simp del: upt_Suc)
  with Cons show ?thesis by simp
qed

text \<open>
  What the two loops do to a store when no column raises and every collaborator gives
  one value per polygon: each column keeps its key and grows by the number of polygons
  for each year that is not skipped.
\<close>

lemma fill_XY_ref_grows:
  assumes "fill_XY_ref XY env cfg root_dir model_period = Inr XY'"
    and "returns_per_polygon env p"
  shows "map fst XY' = map fst XY
       \<and> map (\<lambda>kv. length (snd kv)) XY' =
           map (\<lambda>kv. length (snd kv) + (length model_period - 1) * p) XY"
proof -
  let ?step = "\<lambda>sim_year. fill_columns (column_ref env cfg root_dir sim_year)"
  from assms(1)
  have r: "fill_years ?step (zip model_period [0..<length model_period]) XY = Inr XY'"
    by (simp add: fill_XY_ref_def)
  have step: "map fst XYb = map fst XYa
         \<and> map (\<lambda>kv. length (snd kv)) XYb = map (\<lambda>kv. length (snd kv) + p) XYa"
    if "?step y XYa = Inr XYb" for y XYa XYb
    using that column_ref_grows [OF _ assms(2)] by (rule fill_columns_grows)
  from fill_years_grows [of ?step, OF r step] show ?thesis
    by (simp only: years_not_skipped)
qed

lemma fill_XY_proj_grows:
  assumes "fill_XY_proj XY env cfg root_dir proj_year = Inr XY'"
    and "returns_per_polygon env p"
  shows "map fst XY' = map fst XY
       \<and> map (\<lambda>kv. length (snd kv)) XY' = map (\<lambda>kv. length (snd kv) + p) XY"
proof -
  let ?nb = "neighboring_polys (env_touches env) (env_polygon_gdf env)"
  from assms(1)
  have "fill_columns (column_proj env cfg root_dir ?nb proj_year) XY = Inr XY'"
    by (simp add: fill_XY_proj_def)
  then show ?thesis
    using column_proj_grows [OF _ assms(2)] by (rule fill_columns_grows)
qed

lemma fill_XY_projection_cfg1:
  "fill_XY (initiate_X_data cfg1) env1 cfg1 ''root'' (Some ''out'') True (Some 2030) =
     Inr \<lparr> arr_ncols = 5,
           arr_rows = [[CInt 1, CObj 10, CFloat 1, CBool False, CBool False],
                       [CInt 2, CObj 20, CFloat 2, CBool False, CBool False],
                       [CInt 3, CObj 30, CFloat 3, CBool False, CBool False]] \<rparr>"
proof -
  have path: "nc_path cfg1 ''root'' ''rainfall'' = Inr ''root/input/rain.nc''"
    by (simp add: nc_path_def cfg1_def path_join_def)
  have X: "initiate_X_data cfg1 =
     [(''poly_ID'', []), (''poly_geometry'', []), (''rainfall'', []),
      (''conflict_t_min_1'', []), (''conflict_t_min_1_nb'', [])]"
    by (simp add: initiate_X_data_def cfg1_def)
  have filled: "fill_XY_proj (initiate_X_data cfg1) env1 cfg1 ''root'' 2030 =
     Inr [(''poly_ID'', [CInt 1, CInt 2, CInt 3]), (''poly_geometry'', [CObj 10, CObj 20, CObj 30]),
          (''rainfall'', [CFloat 1, CFloat 2, CFloat 3]),
          (''conflict_t_min_1'', [CBool False, CBool False, CBool False]),
          (''conflict_t_min_1_nb'', [CBool False, CBool False, CBool False])]"
    by (simp add: fill_XY_proj_def X column_proj_def path append_series_def env1_def)
  show ?thesis
    by (simp add: fill_XY_def filled from_dict_to_numpy_def upt_conv_Cons del: upt_Suc)
qed

section \<open>Reusing a precomputed matrix\<close>

text \<open>The array that \<open>fill_XY\<close> returns is rectangular.\<close>

lemma from_dict_to_numpy_rectangular: "rectangular (from_dict_to_numpy XY)"
  by (simp add: rectangular_def from_dict_to_numpy_def list_all_iff)

lemma fill_XY_rectangular:
  "fill_XY XY env cfg root_dir out_dir proj proj_year = Inr a \<Longrightarrow> rectangular a"
  by (auto simp: fill_XY_def Let_def from_dict_to_numpy_rectangular
      split: option.splits if_splits sum.splits)

text \<open>
  What \<open>np.save\<close> writes under a path is what \<open>np.load\<close> reads there, columns, rows and
  cells, and the other files are as before.
\<close>

lemma np_load_np_save:
  "np_load (np_save fs path a) (npy_path path) = Inr a"
  by (simp add: np_load_def np_save_def)

lemma np_save_frame:
  "p \<noteq> npy_path path \<Longrightarrow> np_load (np_save fs path a) p = np_load fs p"
  by (simp add: np_load_def np_save_def)

lemma fill_XY_no_out_dir:
  "fill_XY XY env cfg root_dir None proj proj_year =
     Inl (TypeError ''fill_XY() missing 1 required positional argument: out_dir'')"
  by (simp add: fill_XY_def)

text \<open>
  C9. \<open>create_XY\<close> writes no file, for every configuration and every file system. With
  the entry \<open>XY\<close> of \<open>pre_calc\<close> empty, the branch that assembles the matrix, it raises the
  TypeError of the call of \<open>fill_XY\<close> before \<open>np.save\<close>; otherwise it loads the file the
  entry names and splits it. So the files after the call are the files before it, and
  no run leaves a matrix for a later run to reuse.
\<close>

theorem create_XY_never_saves:
  "create_XY env cfg out_dir root_dir fs =
     (if cfg_pre_calc_XY cfg = [] then
        ([], Inl (TypeError ''fill_XY() missing 1 required positional argument: out_dir''))
      else
        (case fs (path_join root_dir (cfg_pre_calc_XY cfg)) of
           NoEntry \<Rightarrow> ([], Inl (FileNotFoundError (path_join root_dir (cfg_pre_calc_XY cfg))))
         | Directory \<Rightarrow> ([], Inl (IsADirectoryError (path_join root_dir (cfg_pre_calc_XY cfg))))
         | ArrayFile XY \<Rightarrow>
             ([Load (path_join root_dir (cfg_pre_calc_XY cfg))], split_XY_data XY cfg)))
   \<and> (\<forall>path a. Save path a \<notin> set (fst (create_XY env cfg out_dir root_dir fs)))
   \<and> files_after fs (fst (create_XY env cfg out_dir root_dir fs)) = fs"
  by (simp add: create_XY_def fill_XY_no_out_dir np_load_def split: fs_entry.splits)

text \<open>
  The run that assembles the matrix ends with the TypeError and no file \<open>out/XY.npy\<close>; a
  run that reuses the array saved as \<open>root/XY.npy\<close> loads and splits it.
\<close>

lemma create_XY_fresh_cfg1:
  "create_XY env1 cfg1 ''out'' ''root'' files1 =
     ([], Inl (TypeError ''fill_XY() missing 1 required positional argument: out_dir''))"
  by (simp add: create_XY_def fill_XY_no_out_dir cfg1_def)

lemma create_XY_reuse_cfg2:
  "create_XY env1 cfg2 ''out'' ''root'' files1 =
     ([Load ''root/XY.npy''],
      Inr ([[CInt 1, CObj 10, CFloat (1 / 2), CBool False, CFloat 0],
            [CInt 3, CObj 30, CFloat 3, CBool True, CFloat (1 / 2)],
            [CInt 4, CObj 40, CFloat 2, CBool True, CFloat 1],
            [CInt 5, CObj 50, CFloat 1, CBool False, CFloat 0]], [1, 0, - 1, 2]))"
  by (simp add: create_XY_def np_load_def files1_def cfg2_def cfg1_def path_join_def
      split_XY_data_def dropna_def XY1_def int64_of_def truncated_halves)

text \<open>
  C10. \<open>create_X\<close> tests the entry \<open>XY\<close> of \<open>pre_calc\<close> and loads the file of the entry
  \<open>X\<close>. With the entry \<open>XY\<close> empty it starts a fresh matrix, and its call of \<open>fill_XY\<close>,
  which leaves \<open>out_dir\<close> out, raises a TypeError: no matrix is assembled or saved.
\<close>

theorem create_X_tests_XY_loads_X:
  "create_X env cfg out_dir root_dir fs =
     (if cfg_pre_calc_XY cfg = [] then
        ([], Inl (TypeError ''fill_XY() missing 1 required positional argument: out_dir''))
      else
        (case fs (path_join root_dir (cfg_pre_calc_X cfg)) of
           NoEntry \<Rightarrow> ([], Inl (FileNotFoundError (path_join root_dir (cfg_pre_calc_X cfg))))
         | Directory \<Rightarrow> ([], Inl (IsADirectoryError (path_join root_dir (cfg_pre_calc_X cfg))))
         | ArrayFile X \<Rightarrow> ([Load (path_join root_dir (cfg_pre_calc_X cfg))], Inr X)))"
  by (simp add: create_X_def fill_XY_no_out_dir np_load_def split: fs_entry.splits)

lemma create_X_fresh_cfg1:
  "create_X env1 cfg1 ''out'' ''root'' files1 =
     ([], Inl (TypeError ''fill_XY() missing 1 required positional argument: out_dir''))"
  by (simp add: create_X_def fill_XY_no_out_dir cfg1_def)

end
